theory Spec2Isabelle
  imports Complex_Main "HOL-Library.Sublist" "HOL-Library.Stream" "HOL-Library.Word"
begin

section \<open>Strings\<close>

text \<open>
  Python strings are modelled as \<open>string\<close> (a list of characters). The names the
  program handles (owner names, file names, county names) are taken to be ASCII, so
  \<open>str.lower\<close> changes the letters A to Z only and leaves every other character as
  it is.
\<close>

definition ascii_uppercase :: string where
  "ascii_uppercase = ''ABCDEFGHIJKLMNOPQRSTUVWXYZ''"

definition ascii_lowercase :: string where
  "ascii_lowercase = ''abcdefghijklmnopqrstuvwxyz''"

definition lower_char :: "char \<Rightarrow> char" where
  "lower_char c =
     (case map_of (zip ascii_uppercase ascii_lowercase) c of Some d \<Rightarrow> d | None \<Rightarrow> c)"

definition upper_char :: "char \<Rightarrow> char" where
  "upper_char c =
     (case map_of (zip ascii_lowercase ascii_uppercase) c of Some d \<Rightarrow> d | None \<Rightarrow> c)"

definition lower :: "string \<Rightarrow> string" where
  "lower s = map lower_char s"

text \<open>\<open>p in s\<close> on Python strings: \<open>p\<close> occurs in \<open>s\<close> as a contiguous run.\<close>

fun str_in :: "string \<Rightarrow> string \<Rightarrow> bool" where
  "str_in p [] = (p = [])"
| "str_in p (c # cs) = (prefix p (c # cs) \<or> str_in p cs)"

text \<open>\<open>any(pattern in s for pattern in patterns)\<close>.\<close>

definition any_in :: "string list \<Rightarrow> string \<Rightarrow> bool" where
  "any_in patterns s = list_ex (\<lambda>pattern. str_in pattern s) patterns"

section \<open>Entity classifier (FCCTowerExtraction.py)\<close>

text \<open>
  \<open>categorize_entity\<close> receives one cell of the \<open>entity\<close> column. \<open>None\<close> stands
  for a missing value (\<open>pd.isna\<close> holds), \<open>Some s\<close> for the text \<open>str(entity_name)\<close>.
  The function returns one of four fixed strings.
\<close>

definition american_tower_patterns :: "string list" where
  "american_tower_patterns = [''american tower'', ''amt'', ''american towers'']"

definition sba_patterns :: "string list" where
  "sba_patterns = [''sba'', ''sba communications'', ''sba comm'']"

definition crown_castle_patterns :: "string list" where
  "crown_castle_patterns = [''crown castle'', ''crown'', ''ccic'']"

definition categorize_entity :: "string option \<Rightarrow> string" where
  "categorize_entity entity_name =
     (case entity_name of
        None \<Rightarrow> ''Other''
      | Some s \<Rightarrow>
          (let entity_lower = lower s in
           if any_in american_tower_patterns entity_lower then ''American Towers''
           else if any_in sba_patterns entity_lower then ''SBA''
           else if any_in crown_castle_patterns entity_lower then ''Crown Castle''
           else ''Other''))"

section \<open>More string operations\<close>

text \<open>\<open>str.strip()\<close>: white space is removed at both ends.\<close>

definition whitespace :: string where
  "whitespace = [CHR '' '', CHR 0x09, CHR 0x0A, CHR 0x0B, CHR 0x0C, CHR 0x0D,
                 CHR 0x1C, CHR 0x1D, CHR 0x1E, CHR 0x1F]"

definition strip :: "string \<Rightarrow> string" where
  "strip s =
     rev (dropWhile (\<lambda>c. c \<in> set whitespace) (rev (dropWhile (\<lambda>c. c \<in> set whitespace) s)))"

text \<open>
  \<open>str.title()\<close>: a letter that follows a letter is lower-cased, any other letter is
  upper-cased; the flag says whether the previous character was a letter.
\<close>

fun title_from :: "bool \<Rightarrow> string \<Rightarrow> string" where
  "title_from previous_is_cased [] = []"
| "title_from previous_is_cased (c # cs) =
     (if c \<in> set ascii_lowercase then
        (if previous_is_cased then c else upper_char c) # title_from True cs
      else if c \<in> set ascii_uppercase then
        (if previous_is_cased then lower_char c else c) # title_from True cs
      else c # title_from False cs)"

definition title :: "string \<Rightarrow> string" where
  "title s = title_from False s"

text \<open>\<open>str.endswith\<close>.\<close>

definition endswith :: "string \<Rightarrow> string \<Rightarrow> bool" where
  "endswith s suf = prefix (rev suf) (rev s)"

text \<open>
  \<open>os.path.splitext(file)[0]\<close> on a bare file name: the name is cut at its last dot,
  unless nothing but dots comes before that dot, and then the whole name is the root.
\<close>

definition splitext_root :: "string \<Rightarrow> string" where
  "splitext_root p =
     (let rest = dropWhile (\<lambda>c. c \<noteq> CHR ''.'') (rev p) in
      case rest of
        [] \<Rightarrow> p
      | dot # stem_rev \<Rightarrow> if list_all (\<lambda>c. c = CHR ''.'') stem_rev then p else rev stem_rev)"

text \<open>Decimal text of an integer, as an f-string prints it.\<close>

fun str_nat :: "nat \<Rightarrow> string" where
  "str_nat n =
     (if n < 10 then [''0123456789'' ! n]
      else str_nat (n div 10) @ [''0123456789'' ! (n mod 10)])"

declare str_nat.simps [simp del]

definition str_int :: "int \<Rightarrow> string" where
  "str_int i = (if i < 0 then CHR ''-'' # str_nat (nat (- i)) else str_nat (nat i))"

text \<open>\<open>"{:06x}".format(r)\<close> for a draw \<open>r\<close> of \<open>random.randint(0, 0xFFFFFF)\<close>, a 24-bit value.\<close>

definition hex06 :: "24 word \<Rightarrow> string" where
  "hex06 r =
     map (\<lambda>i. ''0123456789abcdef'' ! ((unat r div 16 ^ i) mod 16)) [5, 4, 3, 2, 1, 0]"

section \<open>Data (FCCTower.py)\<close>

text \<open>
  A polygon geometry is an opaque shape, or the \<open>unary_union\<close> of a list of geometries.
  A point geometry has its two coordinates; the program reads \<open>geometry.y\<close> as the
  latitude and \<open>geometry.x\<close> as the longitude, in degrees.
\<close>

datatype geometry = Shape nat | UnaryUnion "geometry list"

record point =
  pt_x :: real
  pt_y :: real

text \<open>One row of the CBRS spreadsheet, with the four columns that are read.\<close>

record cbrs_row =
  Channel :: string
  county_name :: string
  bidder :: string
  state_abbr :: string

text \<open>
  One row of the county outline: the value of its \<open>name\<close> field (\<open>None\<close> when the
  row has no such field) and its geometry.
\<close>

datatype county_row = CountyRow "string option" geometry

text \<open>One row of the grid analysis layer: geometry and \<open>point_count\<close>.\<close>

type_synonym grid_cell = "geometry \<times> int"

text \<open>
  One row of the antenna file: its point, the \<open>grouped_entity\<close> column written by the
  classifier, and the remaining columns that only the popup prints.
\<close>

record antenna_row =
  ant_geometry :: point
  grouped_entity :: string
  popup_columns :: "string list"

text \<open>What a feature group holds. A popup is kept as the rows it prints.\<close>

datatype circle_marker =
  CircleMarker "real \<times> real" nat string string
  \<comment> \<open>location, radius, color, fill_color\<close>

datatype element =
    GeoJson "geometry list" string string nat real
    \<comment> \<open>data, fillColor, color, weight, fillOpacity\<close>
  | MarkerCluster "circle_marker list"
  | CountyMarker geometry string "cbrs_row list"
    \<comment> \<open>geometry whose centroid is the location, label, rows of the CBRS table\<close>
  | Circle "real \<times> real" real string "nat option" real "string option"
    \<comment> \<open>location, radius, color, weight, fillOpacity, dash_array\<close>
  | TowerMarker "real \<times> real" string nat antenna_row
    \<comment> \<open>location, icon colour, index of the row, row printed in the popup\<close>

record feature_group =
  fg_name :: string
  fg_show :: bool
  fg_children :: "element list"

text \<open>
  The map: the geometry whose centroid is its centre, the tile layers (base maps) and
  the feature groups (overlays) in the order in which they were added.
\<close>

record folium_map =
  m_centre :: geometry
  m_tiles :: "string list"
  m_layers :: "feature_group list"

definition add_to :: "feature_group \<Rightarrow> folium_map \<Rightarrow> folium_map" where
  "add_to fg m = m\<lparr>m_layers := m_layers m @ [fg]\<rparr>"

text \<open>
  The datasets of one region as \<open>create_map_fcc_towers\<close> finds them. The four required
  files are held as read. For an optional file \<open>None\<close> says that no path was given or
  that no file is there. The WISP folder is listed in the order of \<open>os.listdir\<close>, each
  file name with the geometries the file holds; \<open>None\<close> says that there is no such
  directory.
\<close>

record region =
  state_name :: string
  state_outline :: "geometry list"
  county_outline :: "county_row list"
  bead_eligible_locations :: "point list"
  grid_analysis_layer :: "grid_cell list"
  cbrs_file :: "cbrs_row list option"
  round2_locations_file :: "point list option"
  cai_locations_file :: "point list option"
  cci_ds_file :: "geometry list option"
  cci_fiber_file :: "geometry list option"
  wisp_folder :: "(string \<times> geometry list) list option"
  antenna_file :: "antenna_row list option"

datatype error = IndexError | UnboundLocalError

section \<open>CBRS licences by county\<close>

text \<open>
  \<open>groupby("county_name")\<close> followed by \<open>to_dict\<close>: every county name that occurs
  is a key, and its value is the list of the rows with that name, in the order of the
  table.
\<close>

definition groupby_county_name :: "cbrs_row list \<Rightarrow> (string \<rightharpoonup> cbrs_row list)" where
  "groupby_county_name rows =
     (\<lambda>key. let grp = filter (\<lambda>r. county_name r = key) rows in
            if grp = [] then None else Some grp)"

definition load_cbrs_data_filtered ::
  "cbrs_row list option \<Rightarrow> string \<Rightarrow> (string \<rightharpoonup> cbrs_row list)" where
  "load_cbrs_data_filtered file abbr =
     (case file of
        None \<Rightarrow> Map.empty
      | Some cbrs_df \<Rightarrow>
          (let state_filtered_df = filter (\<lambda>r. state_abbr r = abbr) cbrs_df in
           if state_filtered_df = [] then Map.empty
           else groupby_county_name state_filtered_df))"

definition STATE_NAME_TO_ABBR :: "(string \<times> string) list" where
  "STATE_NAME_TO_ABBR =
    [(''Alabama'', ''AL''), (''Alaska'', ''AK''), (''Arizona'', ''AZ''), (''Arkansas'', ''AR''),
     (''California'', ''CA''), (''Colorado'', ''CO''), (''Connecticut'', ''CT''),
     (''Delaware'', ''DE''), (''Florida'', ''FL''), (''Georgia'', ''GA''), (''Hawaii'', ''HI''),
     (''Idaho'', ''ID''), (''Illinois'', ''IL''), (''Indiana'', ''IN''), (''Iowa'', ''IA''),
     (''Kansas'', ''KS''), (''Kentucky'', ''KY''), (''Louisiana'', ''LA''), (''Maine'', ''ME''),
     (''Maryland'', ''MD''), (''Massachusetts'', ''MA''), (''Michigan'', ''MI''),
     (''Minnesota'', ''MN''), (''Mississippi'', ''MS''), (''Missouri'', ''MO''),
     (''Montana'', ''MT''), (''Nebraska'', ''NE''), (''Nevada'', ''NV''),
     (''New Hampshire'', ''NH''), (''New Jersey'', ''NJ''), (''New Mexico'', ''NM''),
     (''New York'', ''NY''), (''North Carolina'', ''NC''), (''North Dakota'', ''ND''),
     (''Ohio'', ''OH''), (''Oklahoma'', ''OK''), (''Oregon'', ''OR''), (''Pennsylvania'', ''PA''),
     (''Rhode Island'', ''RI''), (''South Carolina'', ''SC''), (''South Dakota'', ''SD''),
     (''Tennessee'', ''TN''), (''Texas'', ''TX''), (''Utah'', ''UT''), (''Vermont'', ''VT''),
     (''Virginia'', ''VA''), (''Washington'', ''WA''), (''West Virginia'', ''WV''),
     (''Wisconsin'', ''WI''), (''Wyoming'', ''WY''),
     (''District of Columbia'', ''DC''), (''Puerto Rico'', ''PR''), (''Virgin Islands'', ''VI''),
     (''American Samoa'', ''AS''), (''Guam'', ''GU''), (''Northern Mariana Islands'', ''MP'')]"

definition variations :: "(string \<times> string) list" where
  "variations =
    [(''District Of Columbia'', ''DC''), (''Washington DC'', ''DC''),
     (''Washington D.C.'', ''DC'')]"

definition get_state_abbreviation :: "string \<Rightarrow> string option" where
  "get_state_abbreviation name =
     (case map_of STATE_NAME_TO_ABBR name of
        Some abbr \<Rightarrow> Some abbr
      | None \<Rightarrow>
          (case map_of STATE_NAME_TO_ABBR (title name) of
             Some abbr \<Rightarrow> Some abbr
           | None \<Rightarrow> map_of variations name))"

text \<open>
  The dictionary \<open>cbrs_data\<close> of \<open>create_map_fcc_towers\<close>: loaded when the state has
  an abbreviation and the file is there, empty otherwise.
\<close>

definition cbrs_data_of :: "region \<Rightarrow> (string \<rightharpoonup> cbrs_row list)" where
  "cbrs_data_of inp =
     (case get_state_abbreviation (state_name inp) of
        None \<Rightarrow> Map.empty
      | Some abbr \<Rightarrow>
          (if abbr \<noteq> [] \<and> cbrs_file inp \<noteq> None
           then load_cbrs_data_filtered (cbrs_file inp) abbr
           else Map.empty))"

text \<open>\<open>row.get("name", "Unknown County")\<close> and \<open>cbrs_data.get(county_name, [])\<close>.\<close>

fun row_name :: "county_row \<Rightarrow> string" where
  "row_name (CountyRow None g) = ''Unknown County''"
| "row_name (CountyRow (Some n) g) = n"

fun row_geometry :: "county_row \<Rightarrow> geometry" where
  "row_geometry (CountyRow n g) = g"

definition cbrs_info :: "(string \<rightharpoonup> cbrs_row list) \<Rightarrow> county_row \<Rightarrow> cbrs_row list" where
  "cbrs_info cbrs_data row =
     (case cbrs_data (row_name row) of None \<Rightarrow> [] | Some entries \<Rightarrow> entries)"

section \<open>Boundary layers\<close>

definition fg_state :: "region \<Rightarrow> feature_group" where
  "fg_state inp =
     \<lparr>fg_name = ''State Outline'', fg_show = True,
      fg_children = [GeoJson (state_outline inp) ''none'' ''red'' 2 0]\<rparr>"

definition fg_county :: "region \<Rightarrow> feature_group" where
  "fg_county inp =
     \<lparr>fg_name = ''County Outline'', fg_show = True,
      fg_children =
        GeoJson (map row_geometry (county_outline inp)) ''none'' ''blue'' 1 0
        # map (\<lambda>row. CountyMarker (row_geometry row) (row_name row)
                       (cbrs_info (cbrs_data_of inp) row))
            (county_outline inp)\<rparr>"

section \<open>BEAD location layers\<close>

definition add_bead_locations_layer ::
  "folium_map \<Rightarrow> point list option \<Rightarrow> string \<Rightarrow> string \<Rightarrow> string \<Rightarrow> bool \<Rightarrow> folium_map" where
  "add_bead_locations_layer m locations_data layer_name color border_color shw =
     (case locations_data of
        None \<Rightarrow> m
      | Some rows \<Rightarrow>
          if rows = [] then m
          else add_to
            \<lparr>fg_name = layer_name, fg_show = shw,
             fg_children =
               [MarkerCluster
                  (map (\<lambda>row. CircleMarker (pt_y row, pt_x row) 4 border_color color) rows)]\<rparr>
            m)"

definition round1_name :: "region \<Rightarrow> string" where
  "round1_name inp =
     (if round2_locations_file inp \<noteq> None \<or> cai_locations_file inp \<noteq> None
      then ''BEAD Eligible Locations Round 1''
      else ''BEAD Eligible Locations'')"

definition add_bead_layers :: "region \<Rightarrow> folium_map \<Rightarrow> folium_map" where
  "add_bead_layers inp m =
     (let has_round2 = (round2_locations_file inp \<noteq> None);
          has_cai = (cai_locations_file inp \<noteq> None);
          m1 = add_bead_locations_layer m (Some (bead_eligible_locations inp))
                 (round1_name inp) ''#01fbff'' ''white'' True;
          m2 = (if has_round2
                then add_bead_locations_layer m1 (round2_locations_file inp)
                       ''BEAD Eligible Locations Round 2'' ''#01fbff'' ''black'' False
                else m1)
      in if has_cai
         then add_bead_locations_layer m2 (cai_locations_file inp)
                ''BEAD Eligible CAIs'' ''#01fbff'' ''black'' False
         else m2)"

section \<open>CCI layers\<close>

definition add_cci_layers ::
  "folium_map \<Rightarrow> geometry list option \<Rightarrow> geometry list option \<Rightarrow> folium_map" where
  "add_cci_layers m ds fiber =
     (let m1 = (case ds of
                  None \<Rightarrow> m
                | Some cci_ds_data \<Rightarrow>
                    add_to \<lparr>fg_name = ''CCI DSL'', fg_show = False,
                            fg_children = [GeoJson cci_ds_data ''#FF6B35'' ''#FF6B35'' 2 0.7]\<rparr> m)
      in case fiber of
           None \<Rightarrow> m1
         | Some cci_fiber_data \<Rightarrow>
             add_to \<lparr>fg_name = ''CCI Fiber'', fg_show = False,
                     fg_children = [GeoJson cci_fiber_data ''#4ECDC4'' ''#4ECDC4'' 2 0.7]\<rparr> m1)"

definition add_cci_section :: "region \<Rightarrow> folium_map \<Rightarrow> folium_map" where
  "add_cci_section inp m =
     (if lower (state_name inp) = ''maine''
         \<and> (cci_ds_file inp \<noteq> None \<or> cci_fiber_file inp \<noteq> None)
      then add_cci_layers m (cci_ds_file inp) (cci_fiber_file inp)
      else m)"

section \<open>Grid analysis layers\<close>

definition range_dict :: "(string \<times> (int \<times> int) \<times> string) list" where
  "range_dict =
    [(''0'', (1, 5), ''#e4e4f3''),
     (''1'', (5, 10), ''#d1d1ea''),
     (''2'', (10, 20), ''#b3b3e0''),
     (''3'', (20, 30), ''#8080c5''),
     (''4'', (30, 50), ''#6d6dbd''),
     (''5'', (50, 75), ''#4949ac''),
     (''6'', (75, 100), ''#3737a4''),
     (''7'', (100, 50000), ''#121293'')]"

text \<open>The rows of the grid that the filter of one range keeps.\<close>

definition grid_subset :: "grid_cell list \<Rightarrow> int \<Rightarrow> int \<Rightarrow> grid_cell list" where
  "grid_subset grid rng_min rng_max =
     filter (\<lambda>(g, point_count). point_count \<ge> rng_min \<and> point_count < rng_max) grid"

definition grid_layer_name :: "int \<Rightarrow> int \<Rightarrow> string" where
  "grid_layer_name rng_min rng_max =
     (if rng_min = 100 then ''Grid Layer ('' @ str_int rng_min @ ''+ Locations)''
      else ''Grid Layer ('' @ str_int rng_min @ ''-'' @ str_int rng_max @ '' Locations)'')"

fun add_grid_layers ::
  "(string \<times> (int \<times> int) \<times> string) list \<Rightarrow> grid_cell list \<Rightarrow> folium_map \<Rightarrow> folium_map" where
  "add_grid_layers [] grid m = m"
| "add_grid_layers ((key, (rng_min, rng_max), color) # items) grid m =
     (let subset = grid_subset grid rng_min rng_max in
      if length subset = 0 then add_grid_layers items grid m
      else
        let dissolved_geo = UnaryUnion (map fst subset);
            fg_grid = \<lparr>fg_name = grid_layer_name rng_min rng_max, fg_show = False,
                       fg_children = [GeoJson [dissolved_geo] color color 1 0.6]\<rparr>
        in add_grid_layers items grid (add_to fg_grid m))"

text \<open>
  The keys of the ranges whose filter keeps a cell with the given \<open>point_count\<close>: the
  grid layers in which the cell is drawn.
\<close>

definition matching_ranges :: "int \<Rightarrow> string list" where
  "matching_ranges point_count =
     map fst (filter (\<lambda>(key, (rng_min, rng_max), color).
                        point_count \<ge> rng_min \<and> point_count < rng_max) range_dict)"

section \<open>WISP layers\<close>

definition wisp_colors :: "(string \<times> string) list" where
  "wisp_colors =
    [(''AT&T'', ''#009FDB''),
     (''T-Mobile'', ''#E20074''),
     (''Verizon'', ''#E81123''),
     (''Mediacom Bolt'', ''#0033A0''),
     (''Point Broadband'', ''#F89728''),
     (''Cloud 9 Wireless'', ''#6BACE4''),
     (''Dragonfly Internet'', ''#FF5733''),
     (''Rapid Wireless LLC'', ''#28A745''),
     (''Wildstar Networks'', ''#8E44AD'')]"

text \<open>
  The random source is the stream of the values that \<open>random.randint(0, 0xFFFFFF)\<close>
  returns, one after the other. \<open>get_wisp_color\<close> takes the head of the stream only when
  no key occurs in the name, and returns the rest of the stream with the colour.
\<close>

definition known_wisp_color :: "string \<Rightarrow> string option" where
  "known_wisp_color wisp_name =
     map_option snd
       (find (\<lambda>(key, c). str_in (lower key) (strip (lower wisp_name))) wisp_colors)"

definition get_wisp_color :: "string \<Rightarrow> 24 word stream \<Rightarrow> string \<times> 24 word stream" where
  "get_wisp_color wisp_name rng =
     (case known_wisp_color wisp_name of
        Some c \<Rightarrow> (c, rng)
      | None \<Rightarrow> (CHR ''#'' # hex06 (shd rng), stl rng))"

fun add_wisp_files ::
  "(string \<times> geometry list) list \<Rightarrow> folium_map \<Rightarrow> 24 word stream
     \<Rightarrow> folium_map \<times> 24 word stream" where
  "add_wisp_files [] m rng = (m, rng)"
| "add_wisp_files ((file, wisp_layer) # files) m rng =
     (if endswith file ''.sqlite'' then
        (let wisp_name = splitext_root file;
             (color, rng') = get_wisp_color wisp_name rng;
             wisp_fg = \<lparr>fg_name = ''WISP - '' @ wisp_name, fg_show = False,
                        fg_children = [GeoJson wisp_layer color color 1 0.6]\<rparr>
         in add_wisp_files files (add_to wisp_fg m) rng')
      else add_wisp_files files m rng)"

definition add_wisp_layers ::
  "folium_map \<Rightarrow> (string \<times> geometry list) list option \<Rightarrow> 24 word stream
     \<Rightarrow> folium_map \<times> 24 word stream" where
  "add_wisp_layers m folder rng =
     (case folder of None \<Rightarrow> (m, rng) | Some files \<Rightarrow> add_wisp_files files m rng)"

section \<open>Antenna markers and coverage rings\<close>

text \<open>
  The coordinates are IEEE doubles in the program and real numbers here. The cosine of a
  double is never exactly zero, so the division of \<open>degrees_per_mile\<close> never fails in the
  program; on the reals the divisor is zero where the cosine of the latitude is zero, at
  the poles. There the program divides by a tiny double and returns a radius of about
  \<open>5.25e19\<close> metres for 2 miles, while the division of the reals gives 0: the value
  below carries no meaning there, and what is stated about the radii is stated for the
  latitudes whose cosine is not zero.
\<close>

definition radians :: "real \<Rightarrow> real" where
  "radians deg = deg * pi / 180"

definition degrees_per_mile :: "real \<Rightarrow> real \<Rightarrow> real" where
  "degrees_per_mile lat miles = miles / (69.0 * cos (radians lat))"

text \<open>The two radii \<open>r2\<close> and \<open>r5\<close> that are computed for a row at latitude \<open>lat\<close>.\<close>

definition ring_radii :: "real \<Rightarrow> real \<times> real" where
  "ring_radii lat = (degrees_per_mile lat 2 * 111000, degrees_per_mile lat 5 * 111000)"

text \<open>
  The rows of one ownership group, each with its index in the antenna table, which the
  selection keeps.
\<close>

definition tower_data :: "antenna_row list \<Rightarrow> string \<Rightarrow> (nat \<times> antenna_row) list" where
  "tower_data antenna_data grp =
     filter (\<lambda>(idx, row). grouped_entity row = grp) (enumerate 0 antenna_data)"

definition coverage_styles :: "(string \<times> string) list" where
  "coverage_styles =
    [(''Other'', ''blue''), (''American Towers'', ''red''), (''SBA'', ''purple''),
     (''Crown Castle'', ''orange'')]"

definition coverage_color :: "string \<Rightarrow> string" where
  "coverage_color grp = (case map_of coverage_styles grp of Some c \<Rightarrow> c | None \<Rightarrow> [])"

text \<open>
  \<open>add_coverage_rings\<close> puts one circle per row into each of its two feature groups;
  these are the circles of the 2-mile and of the 5-mile group.
\<close>

definition coverage_rings_2mi :: "(nat \<times> antenna_row) list \<Rightarrow> string \<Rightarrow> element list" where
  "coverage_rings_2mi group_data group_color =
     map (\<lambda>(idx, row).
            let lat = pt_y (ant_geometry row); lon = pt_x (ant_geometry row)
            in Circle (lat, lon) (fst (ring_radii lat)) group_color (Some 2) 0.2 None)
         group_data"

definition coverage_rings_5mi :: "(nat \<times> antenna_row) list \<Rightarrow> string \<Rightarrow> element list" where
  "coverage_rings_5mi group_data group_color =
     map (\<lambda>(idx, row).
            let lat = pt_y (ant_geometry row); lon = pt_x (ant_geometry row)
            in Circle (lat, lon) (snd (ring_radii lat)) group_color (Some 2) 0.1 (Some ''10,5''))
         group_data"

definition tower_markers :: "(nat \<times> antenna_row) list \<Rightarrow> string \<Rightarrow> element list" where
  "tower_markers group_data icon_color =
     map (\<lambda>(idx, row).
            TowerMarker (pt_y (ant_geometry row), pt_x (ant_geometry row)) icon_color idx row)
         group_data"

text \<open>
  The fourteen feature groups of the antenna section as they stand when the section
  ends, each under the name of its variable in the program.
\<close>

definition fg_antennas :: "antenna_row list \<Rightarrow> feature_group" where
  "fg_antennas antenna_data =
     \<lparr>fg_name = ''Antenna Locations - Other'', fg_show = False,
      fg_children = tower_markers (tower_data antenna_data ''Other'') ''blue''\<rparr>"

definition fg_antennas_american_towers :: "antenna_row list \<Rightarrow> feature_group" where
  "fg_antennas_american_towers antenna_data =
     \<lparr>fg_name = ''Antenna Locations - American Towers'', fg_show = False,
      fg_children = tower_markers (tower_data antenna_data ''American Towers'') ''red''\<rparr>"

definition fg_antennas_sba_towers :: "antenna_row list \<Rightarrow> feature_group" where
  "fg_antennas_sba_towers antenna_data =
     \<lparr>fg_name = ''Antenna Locations - SBA Towers'', fg_show = False,
      fg_children = tower_markers (tower_data antenna_data ''SBA'') ''purple''\<rparr>"

definition fg_antennas_crown_castle :: "antenna_row list \<Rightarrow> feature_group" where
  "fg_antennas_crown_castle antenna_data =
     \<lparr>fg_name = ''Antenna Locations - Crown Castle Towers'', fg_show = False,
      fg_children = tower_markers (tower_data antenna_data ''Crown Castle'') ''orange''\<rparr>"

definition fg_coverage2 :: "antenna_row list \<Rightarrow> feature_group" where
  "fg_coverage2 antenna_data =
     \<lparr>fg_name = ''Antenna Coverage (2 Miles)'', fg_show = False,
      fg_children =
        map (\<lambda>(idx, row).
               let lat = pt_y (ant_geometry row); lon = pt_x (ant_geometry row)
               in Circle (lat, lon) (fst (ring_radii lat)) ''green'' None 0.2 None)
            (enumerate 0 antenna_data)\<rparr>"

definition fg_coverage5 :: "antenna_row list \<Rightarrow> feature_group" where
  "fg_coverage5 antenna_data =
     \<lparr>fg_name = ''Antenna Coverage (5 Miles)'', fg_show = False,
      fg_children =
        map (\<lambda>(idx, row).
               let lat = pt_y (ant_geometry row); lon = pt_x (ant_geometry row)
               in Circle (lat, lon) (snd (ring_radii lat)) ''blue'' None 0.1 None)
            (enumerate 0 antenna_data)\<rparr>"

definition fg_coverage2_other :: "antenna_row list \<Rightarrow> feature_group" where
  "fg_coverage2_other antenna_data =
     \<lparr>fg_name = ''Other - Coverage 2 Mile'', fg_show = False,
      fg_children =
        coverage_rings_2mi (tower_data antenna_data ''Other'') (coverage_color ''Other'')\<rparr>"

definition fg_coverage5_other :: "antenna_row list \<Rightarrow> feature_group" where
  "fg_coverage5_other antenna_data =
     \<lparr>fg_name = ''Other - Coverage 5 Mile'', fg_show = False,
      fg_children =
        coverage_rings_5mi (tower_data antenna_data ''Other'') (coverage_color ''Other'')\<rparr>"

definition fg_coverage2_american :: "antenna_row list \<Rightarrow> feature_group" where
  "fg_coverage2_american antenna_data =
     \<lparr>fg_name = ''American Towers - Coverage 2 Mile'', fg_show = False,
      fg_children =
        coverage_rings_2mi (tower_data antenna_data ''American Towers'')
          (coverage_color ''American Towers'')\<rparr>"

definition fg_coverage5_american :: "antenna_row list \<Rightarrow> feature_group" where
  "fg_coverage5_american antenna_data =
     \<lparr>fg_name = ''American Towers - Coverage 5 Mile'', fg_show = False,
      fg_children =
        coverage_rings_5mi (tower_data antenna_data ''American Towers'')
          (coverage_color ''American Towers'')\<rparr>"

definition fg_coverage2_sba :: "antenna_row list \<Rightarrow> feature_group" where
  "fg_coverage2_sba antenna_data =
     \<lparr>fg_name = ''SBA Towers - Coverage 2 Mile'', fg_show = False,
      fg_children =
        coverage_rings_2mi (tower_data antenna_data ''SBA'') (coverage_color ''SBA'')\<rparr>"

definition fg_coverage5_sba :: "antenna_row list \<Rightarrow> feature_group" where
  "fg_coverage5_sba antenna_data =
     \<lparr>fg_name = ''SBA Towers - Coverage 5 Mile'', fg_show = False,
      fg_children =
        coverage_rings_5mi (tower_data antenna_data ''SBA'') (coverage_color ''SBA'')\<rparr>"

definition fg_coverage2_crown :: "antenna_row list \<Rightarrow> feature_group" where
  "fg_coverage2_crown antenna_data =
     \<lparr>fg_name = ''Crown Castle - Coverage 2 Mile'', fg_show = False,
      fg_children =
        coverage_rings_2mi (tower_data antenna_data ''Crown Castle'')
          (coverage_color ''Crown Castle'')\<rparr>"

definition fg_coverage5_crown :: "antenna_row list \<Rightarrow> feature_group" where
  "fg_coverage5_crown antenna_data =
     \<lparr>fg_name = ''Crown Castle - Coverage 5 Mile'', fg_show = False,
      fg_children =
        coverage_rings_5mi (tower_data antenna_data ''Crown Castle'')
          (coverage_color ''Crown Castle'')\<rparr>"

text \<open>
  The twelve \<open>add_to(m)\<close> calls that follow the antenna section. They stand outside its
  \<open>if\<close>: when there is no antenna file the variable \<open>fg_antennas\<close> was never bound, and
  the first call raises \<open>UnboundLocalError\<close>.
\<close>

definition add_antenna_layers :: "antenna_row list option \<Rightarrow> folium_map \<Rightarrow> error + folium_map" where
  "add_antenna_layers file m =
     (case file of
        None \<Rightarrow> Inl UnboundLocalError
      | Some antenna_data \<Rightarrow>
          Inr (add_to (fg_coverage5_crown antenna_data)
              (add_to (fg_coverage2_crown antenna_data)
              (add_to (fg_antennas_crown_castle antenna_data)
              (add_to (fg_coverage5_sba antenna_data)
              (add_to (fg_coverage2_sba antenna_data)
              (add_to (fg_antennas_sba_towers antenna_data)
              (add_to (fg_coverage5_american antenna_data)
              (add_to (fg_coverage2_american antenna_data)
              (add_to (fg_antennas_american_towers antenna_data)
              (add_to (fg_coverage5_other antenna_data)
              (add_to (fg_coverage2_other antenna_data)
              (add_to (fg_antennas antenna_data) m)))))))))))))"

text \<open>The twelve layers of these calls, in the order in which they are added.\<close>

definition antenna_layers :: "antenna_row list \<Rightarrow> feature_group list" where
  "antenna_layers antenna_data =
     [fg_antennas antenna_data, fg_coverage2_other antenna_data,
      fg_coverage5_other antenna_data,
      fg_antennas_american_towers antenna_data, fg_coverage2_american antenna_data,
      fg_coverage5_american antenna_data,
      fg_antennas_sba_towers antenna_data, fg_coverage2_sba antenna_data,
      fg_coverage5_sba antenna_data,
      fg_antennas_crown_castle antenna_data, fg_coverage2_crown antenna_data,
      fg_coverage5_crown antenna_data]"

section \<open>The map of one region\<close>

text \<open>
  \<open>create_map_fcc_towers\<close>, from the loaded datasets to the map that is saved, or to the
  exception that ends the call. The centre of the map is the centroid of the first row
  of the state outline; an outline without rows raises \<open>IndexError\<close> there.
\<close>

definition create_map_fcc_towers :: "region \<Rightarrow> 24 word stream \<Rightarrow> error + folium_map" where
  "create_map_fcc_towers inp rng =
     (case state_outline inp of
        [] \<Rightarrow> Inl IndexError
      | first_row # other_rows \<Rightarrow>
          (let m0 = \<lparr>m_centre = first_row,
                     m_tiles = [''White Background'', ''Google Maps'', ''Google Satellite''],
                     m_layers = []\<rparr>;
               m1 = add_to (fg_state inp) m0;
               m2 = add_to (fg_county inp) m1;
               m3 = add_bead_layers inp m2;
               m4 = add_cci_section inp m3;
               m5 = add_grid_layers range_dict (grid_analysis_layer inp) m4;
               (m6, rng') = add_wisp_layers m5 (wisp_folder inp) rng
           in add_antenna_layers (antenna_file inp) m6))"

section \<open>Observations on layers and on the join\<close>

text \<open>The number of features that a feature group draws.\<close>

fun element_features :: "element \<Rightarrow> nat" where
  "element_features (GeoJson gs fc c w fo) = length gs"
| "element_features (MarkerCluster ms) = length ms"
| "element_features (CountyMarker g label entries) = 1"
| "element_features (Circle loc r c w fo d) = 1"
| "element_features (TowerMarker loc c idx row) = 1"

definition backing_features :: "feature_group \<Rightarrow> nat" where
  "backing_features fg = sum_list (map element_features (fg_children fg))"

text \<open>
  What is seen of the result of a call: the names of its layers; each name with the
  number of features; each name with the visibility flag; each name with the colours of
  its elements.
\<close>

definition layer_names :: "error + folium_map \<Rightarrow> error + string list" where
  "layer_names res = map_sum id (\<lambda>m. map fg_name (m_layers m)) res"

definition layer_features :: "error + folium_map \<Rightarrow> error + (string \<times> nat) list" where
  "layer_features res =
     map_sum id (\<lambda>m. map (\<lambda>l. (fg_name l, backing_features l)) (m_layers m)) res"




text \<open>The names that the program gives to layers, apart from the WISP layers.\<close>

definition fixed_layer_names :: "string list" where
  "fixed_layer_names =
     [''State Outline'', ''County Outline'', ''BEAD Eligible Locations Round 1'',
      ''BEAD Eligible Locations'', ''BEAD Eligible Locations Round 2'', ''BEAD Eligible CAIs'',
      ''CCI DSL'', ''CCI Fiber'',
      ''Grid Layer (1-5 Locations)'', ''Grid Layer (5-10 Locations)'',
      ''Grid Layer (10-20 Locations)'', ''Grid Layer (20-30 Locations)'',
      ''Grid Layer (30-50 Locations)'', ''Grid Layer (50-75 Locations)'',
      ''Grid Layer (75-100 Locations)'', ''Grid Layer (100+ Locations)'',
      ''Antenna Locations - Other'', ''Other - Coverage 2 Mile'', ''Other - Coverage 5 Mile'',
      ''Antenna Locations - American Towers'', ''American Towers - Coverage 2 Mile'',
      ''American Towers - Coverage 5 Mile'',
      ''Antenna Locations - SBA Towers'', ''SBA Towers - Coverage 2 Mile'',
      ''SBA Towers - Coverage 5 Mile'',
      ''Antenna Locations - Crown Castle Towers'', ''Crown Castle - Coverage 2 Mile'',
      ''Crown Castle - Coverage 5 Mile'']"


text \<open>
  The place that the ordering contract of the specification gives to a layer, read off
  its name: 0 for the administrative boundaries, 1 for the point datasets, 2 for the
  density layers, 3 for the infrastructure markers, 4 for the coverage rings, 5 for the
  overlays of third parties. The contract asks for a list of layers whose places never
  decrease.
\<close>

definition contract_place :: "string \<Rightarrow> nat" where
  "contract_place n =
     (if n = ''State Outline'' \<or> n = ''County Outline'' then 0
      else if prefix ''BEAD Eligible'' n then 1
      else if prefix ''Grid Layer'' n then 2
      else if prefix ''Antenna Locations'' n then 3
      else if prefix ''WISP - '' n then 5
      else if str_in ''Coverage'' n then 4
      else 5)"

text \<open>
  The grid layers of a map, and what the grid loop makes of one range: \<open>fg_grid\<close> is the
  feature group of the range, with the cells of its subset dissolved into one geometry;
  \<open>nonempty_ranges\<close> are the ranges of \<open>range_dict\<close> whose subset has a cell.
\<close>

definition grid_layers :: "folium_map \<Rightarrow> feature_group list" where
  "grid_layers m = filter (\<lambda>l. prefix ''Grid Layer'' (fg_name l)) (m_layers m)"

definition fg_grid :: "grid_cell list \<Rightarrow> string \<times> (int \<times> int) \<times> string \<Rightarrow> feature_group" where
  "fg_grid grid item =
     (case item of (key, (rng_min, rng_max), color) \<Rightarrow>
        \<lparr>fg_name = grid_layer_name rng_min rng_max, fg_show = False,
         fg_children =
           [GeoJson [UnaryUnion (map fst (grid_subset grid rng_min rng_max))] color color 1 0.6]\<rparr>)"

definition nonempty_ranges :: "grid_cell list \<Rightarrow> (string \<times> (int \<times> int) \<times> string) list" where
  "nonempty_ranges grid =
     filter (\<lambda>(key, (rng_min, rng_max), color). length (grid_subset grid rng_min rng_max) \<noteq> 0)
       range_dict"

text \<open>
  The record lists of the join: for each row of the county outline, in order, the CBRS
  rows that its popup prints.
\<close>

definition county_cbrs_info :: "region \<Rightarrow> cbrs_row list list" where
  "county_cbrs_info inp = map (cbrs_info (cbrs_data_of inp)) (county_outline inp)"

text \<open>The rows of a table whose county name is the name of no row of the county outline.\<close>

definition unmatched_rows :: "region \<Rightarrow> cbrs_row list \<Rightarrow> cbrs_row list" where
  "unmatched_rows inp rows =
     filter (\<lambda>r. county_name r \<notin> set (map row_name (county_outline inp))) rows"

text \<open>The other rows of the table: their county name is the name of a county row.\<close>

definition matched_rows :: "region \<Rightarrow> cbrs_row list \<Rightarrow> cbrs_row list" where
  "matched_rows inp rows =
     filter (\<lambda>r. county_name r \<in> set (map row_name (county_outline inp))) rows"

section \<open>Sample regions\<close>

definition origin :: point where
  "origin = \<lparr>pt_x = 0, pt_y = 0\<rparr>"

text \<open>A region with the four required datasets and nothing else.\<close>

definition required_only :: region where
  "required_only =
     \<lparr>state_name = ''Vermont'',
      state_outline = [Shape 0],
      county_outline = [CountyRow (Some ''Addison'') (Shape 1)],
      bead_eligible_locations = [origin],
      grid_analysis_layer = [(Shape 2, 3)],
      cbrs_file = None,
      round2_locations_file = None,
      cai_locations_file = None,
      cci_ds_file = None,
      cci_fiber_file = None,
      wisp_folder = None,
      antenna_file = None\<rparr>"

text \<open>
  A region with every kind of dataset: an empty second round, one WISP file whose name
  holds no known key and one whose name does, one antenna of the group Other, and a
  CBRS table with a row of another state and a row of an unknown county.
\<close>

definition sample_cbrs :: "cbrs_row list" where
  "sample_cbrs =
     [\<lparr>Channel = ''1'', county_name = ''York'', bidder = ''A'', state_abbr = ''ME''\<rparr>,
      \<lparr>Channel = ''2'', county_name = ''York'', bidder = ''B'', state_abbr = ''PA''\<rparr>,
      \<lparr>Channel = ''3'', county_name = ''Kent'', bidder = ''C'', state_abbr = ''ME''\<rparr>]"

definition sample_antenna :: antenna_row where
  "sample_antenna = \<lparr>ant_geometry = origin, grouped_entity = ''Other'', popup_columns = []\<rparr>"

definition sample_region :: region where
  "sample_region =
     \<lparr>state_name = ''Maine'',
      state_outline = [Shape 0],
      county_outline = [CountyRow (Some ''York'') (Shape 1), CountyRow (Some ''Knox'') (Shape 2)],
      bead_eligible_locations = [origin],
      grid_analysis_layer = [(Shape 3, 3), (Shape 4, 120), (Shape 5, 10000000)],
      cbrs_file = Some sample_cbrs,
      round2_locations_file = Some [],
      cai_locations_file = None,
      cci_ds_file = Some [Shape 6],
      cci_fiber_file = None,
      wisp_folder = Some [(''Acme Net.sqlite'', [Shape 7]), (''notes.txt'', []),
                          (''Verizon.sqlite'', [Shape 8])],
      antenna_file = Some [sample_antenna]\<rparr>"


section \<open>Facts about strings\<close>

lemma str_in_iff: "str_in p s \<longleftrightarrow> (\<exists>pre post. s = pre @ p @ post)"
proof (induction s)
  case Nil
  then show ?case by auto
next
  case (Cons c cs)
  have "str_in p (c # cs) \<longleftrightarrow> prefix p (c # cs) \<or> sublist p cs"
    using Cons.IH by (simp add: sublist_def)
  also have "\<dots> \<longleftrightarrow> sublist p (c # cs)"
    by (simp add: sublist_Cons_right)
  finally show ?case by (simp add: sublist_def)
qed

lemma lower_append: "lower (a @ b) = lower a @ lower b"
  by (simp add: lower_def)

lemma str_in_lowerI: "lower mid = p \<Longrightarrow> str_in p (lower (pre @ mid @ post))"
  unfolding str_in_iff lower_append by blast

section \<open>The classifier\<close>

text \<open>
  C10. The American Towers list holds the bare pattern \<open>amt\<close> and is tried first: every
  name in which \<open>amt\<close> occurs in any mix of upper and lower case is classified as
  American Towers, whatever else the name contains (patterns of SBA or Crown Castle
  included).
\<close>

theorem amt_anywhere_is_american_towers:
  "lower mid = ''amt'' \<Longrightarrow>
     categorize_entity (Some (pre @ mid @ post)) = ''American Towers''"
proof -
  assume "lower mid = ''amt''"
  then have "str_in ''amt'' (lower (pre @ mid @ post))"
    by (rule str_in_lowerI)
  then have "any_in american_tower_patterns (lower (pre @ mid @ post))"
    by (simp add: any_in_def american_tower_patterns_def)
  then show ?thesis
    by (simp add: categorize_entity_def)
qed

theorem amt_anywhere_is_american_towers_witness:
  "lower ''AmT'' = ''amt'' \<and>
   categorize_entity (Some (''SBA Crown Castle Dre'' @ ''AmT'' @ ''ime LLC'')) = ''American Towers''"
proof -
  have h: "lower ''AmT'' = ''amt''"
    by (simp add: lower_def lower_char_def ascii_uppercase_def ascii_lowercase_def)
  show ?thesis
    using h amt_anywhere_is_american_towers [OF h, of "''SBA Crown Castle Dre''" "''ime LLC''"]
    by simp
qed

text \<open>
  C7. The classifier is a total function: every cell, missing or not, gets exactly one of
  the four category names. A missing name and the empty name give Other. The pattern
  lists are tried in the order American Towers, SBA, Crown Castle on the lower-cased
  name, and the first list with a pattern that occurs in the name decides: a name with
  an American Towers pattern is American Towers whatever else it matches, a name with an
  SBA pattern and no American Towers pattern is SBA, a name in which \<open>crown castle\<close>
  occurs in any mix of case and that matches no American Towers or SBA pattern is Crown
  Castle, and a name matching no pattern at all is Other.
\<close>

theorem categorize_entity_first_match_wins:
  "categorize_entity e \<in> {''American Towers'', ''SBA'', ''Crown Castle'', ''Other''}
   \<and> categorize_entity None = ''Other''
   \<and> categorize_entity (Some []) = ''Other''
   \<and> (any_in american_tower_patterns (lower a) \<longrightarrow>
        categorize_entity (Some a) = ''American Towers'')
   \<and> (\<not> any_in american_tower_patterns (lower b) \<and> any_in sba_patterns (lower b) \<longrightarrow>
        categorize_entity (Some b) = ''SBA'')
   \<and> (\<not> any_in american_tower_patterns (lower c) \<and> \<not> any_in sba_patterns (lower c)
        \<and> any_in crown_castle_patterns (lower c) \<longrightarrow>
        categorize_entity (Some c) = ''Crown Castle'')
   \<and> (lower mid = ''crown castle''
        \<and> \<not> any_in american_tower_patterns (lower (pre @ mid @ post))
        \<and> \<not> any_in sba_patterns (lower (pre @ mid @ post)) \<longrightarrow>
        categorize_entity (Some (pre @ mid @ post)) = ''Crown Castle'')
   \<and> (\<not> any_in american_tower_patterns (lower d) \<and> \<not> any_in sba_patterns (lower d)
        \<and> \<not> any_in crown_castle_patterns (lower d) \<longrightarrow>
        categorize_entity (Some d) = ''Other'')"
proof -
  have range: "categorize_entity e \<in> {''American Towers'', ''SBA'', ''Crown Castle'', ''Other''}"
    by (cases e) (simp_all add: categorize_entity_def Let_def)
  have empty: "categorize_entity (Some []) = ''Other''"
    by (simp add: categorize_entity_def lower_def any_in_def american_tower_patterns_def
        sba_patterns_def crown_castle_patterns_def)
  have crown: "any_in crown_castle_patterns (lower (pre @ mid @ post))"
    if "lower mid = ''crown castle''"
    using str_in_lowerI [OF that, of pre post]
    by (simp add: any_in_def crown_castle_patterns_def)
  show ?thesis
    using range empty crown by (simp add: categorize_entity_def Let_def)
qed

theorem categorize_entity_first_match_wins_witness:
  "any_in american_tower_patterns (lower ''SBA / American Tower LLC'')
   \<and> categorize_entity (Some ''SBA / American Tower LLC'') = ''American Towers''
   \<and> \<not> any_in american_tower_patterns (lower ''Crown SBA'')
   \<and> any_in sba_patterns (lower ''Crown SBA'')
   \<and> categorize_entity (Some ''Crown SBA'') = ''SBA''
   \<and> \<not> any_in american_tower_patterns (lower ''CCIC'')
   \<and> \<not> any_in sba_patterns (lower ''CCIC'')
   \<and> any_in crown_castle_patterns (lower ''CCIC'')
   \<and> categorize_entity (Some ''CCIC'') = ''Crown Castle''
   \<and> lower ''CROWN Castle'' = ''crown castle''
   \<and> \<not> any_in american_tower_patterns (lower (''The '' @ ''CROWN Castle'' @ '' Co''))
   \<and> \<not> any_in sba_patterns (lower (''The '' @ ''CROWN Castle'' @ '' Co''))
   \<and> categorize_entity (Some (''The '' @ ''CROWN Castle'' @ '' Co'')) = ''Crown Castle''
   \<and> \<not> any_in american_tower_patterns (lower ''Verizon'')
   \<and> \<not> any_in sba_patterns (lower ''Verizon'')
   \<and> \<not> any_in crown_castle_patterns (lower ''Verizon'')
   \<and> categorize_entity (Some ''Verizon'') = ''Other''"
proof -
  note ev = lower_def lower_char_def ascii_uppercase_def ascii_lowercase_def any_in_def
    american_tower_patterns_def sba_patterns_def crown_castle_patterns_def
  have h1: "any_in american_tower_patterns (lower ''SBA / American Tower LLC'')"
    by (simp add: ev)
  have h2: "\<not> any_in american_tower_patterns (lower ''Crown SBA'')
      \<and> any_in sba_patterns (lower ''Crown SBA'')"
    by (simp add: ev)
  have h3: "\<not> any_in american_tower_patterns (lower ''CCIC'')
      \<and> \<not> any_in sba_patterns (lower ''CCIC'')
      \<and> any_in crown_castle_patterns (lower ''CCIC'')"
    by (simp add: ev)
  have h4: "lower ''CROWN Castle'' = ''crown castle''
      \<and> \<not> any_in american_tower_patterns (lower (''The '' @ ''CROWN Castle'' @ '' Co''))
      \<and> \<not> any_in sba_patterns (lower (''The '' @ ''CROWN Castle'' @ '' Co''))"
    by (simp add: ev)
  have h5: "\<not> any_in american_tower_patterns (lower ''Verizon'')
      \<and> \<not> any_in sba_patterns (lower ''Verizon'')
      \<and> \<not> any_in crown_castle_patterns (lower ''Verizon'')"
    by (simp add: ev)
  show ?thesis
    using h1 h2 h3 h4 h5
      categorize_entity_first_match_wins [of None "''SBA / American Tower LLC''" "''Crown SBA''"
        "''CCIC''" "''CROWN Castle''" "''The ''" "'' Co''" "''Verizon''"]
    by blast
qed

section \<open>Grid ranges\<close>

lemma matching_ranges_unique:
  "1 \<le> c \<Longrightarrow> c < 50000 \<Longrightarrow> \<exists>key. matching_ranges c = [key]"
  by (simp add: matching_ranges_def range_dict_def)

lemma matching_ranges_below: "c < 1 \<Longrightarrow> matching_ranges c = []"
  by (simp add: matching_ranges_def range_dict_def)

lemma matching_ranges_above: "50000 \<le> c \<Longrightarrow> matching_ranges c = []"
  by (simp add: matching_ranges_def range_dict_def)

text \<open>
  C1. The counts 1, 4, 5, 99 and 100 fall into the ranges 0, 0, 1, 6 and 7. The last
  range is written \<open>(100, 50000)\<close>: a cell with \<open>point_count\<close> 10000000 is kept by no
  range, and the map of a grid that holds only such a cell has no grid layer, although
  the layer of the last range is named "100+ Locations".
\<close>

theorem last_range_stops_at_50000:
  "matching_ranges 1 = [''0''] \<and> matching_ranges 4 = [''0''] \<and> matching_ranges 5 = [''1'']
   \<and> matching_ranges 99 = [''6''] \<and> matching_ranges 100 = [''7'']
   \<and> matching_ranges 49999 = [''7'']
   \<and> matching_ranges 50000 = []
   \<and> matching_ranges 10000000 = []
   \<and> map fg_name (m_layers (add_grid_layers range_dict [(g, 100)]
        \<lparr>m_centre = c, m_tiles = [], m_layers = []\<rparr>)) = [''Grid Layer (100+ Locations)'']
   \<and> m_layers (add_grid_layers range_dict [(g, 10000000)]
        \<lparr>m_centre = c, m_tiles = [], m_layers = []\<rparr>) = []"
  by (simp add: matching_ranges_def range_dict_def grid_subset_def add_to_def
      grid_layer_name_def str_int_def str_nat.simps)

section \<open>Coverage rings\<close>

text \<open>
  C6. At a latitude whose cosine is not zero, the radius of a ring is
  \<open>miles / (69 * cos (latitude in radians)) * 111000\<close>, a function of the latitude and
  the distance alone, and the circles of the 2-mile and the 5-mile group of a row at such
  a latitude carry these radii. At latitude 0 the radii are \<open>2 / 69 * 111000\<close> and
  \<open>5 / 69 * 111000\<close>, within 0.05 of 3217.4 and 8043.5. Nothing is stated for the
  latitudes whose cosine is zero, where the reals and the doubles of the program part.
\<close>

theorem ring_radii_formula:
  "(cos (lat * pi / 180) \<noteq> 0 \<longrightarrow>
      degrees_per_mile lat miles = miles / (69 * cos (lat * pi / 180))
      \<and> ring_radii lat = (2 / (69 * cos (lat * pi / 180)) * 111000,
                          5 / (69 * cos (lat * pi / 180)) * 111000))
   \<and> (cos (pt_y (ant_geometry row) * pi / 180) \<noteq> 0 \<longrightarrow>
        coverage_rings_2mi [(idx, row)] col =
          [Circle (pt_y (ant_geometry row), pt_x (ant_geometry row))
             (2 / (69 * cos (pt_y (ant_geometry row) * pi / 180)) * 111000) col (Some 2) 0.2
             None]
        \<and> coverage_rings_5mi [(idx, row)] col =
          [Circle (pt_y (ant_geometry row), pt_x (ant_geometry row))
             (5 / (69 * cos (pt_y (ant_geometry row) * pi / 180)) * 111000) col (Some 2) 0.1
             (Some ''10,5'')])
   \<and> ring_radii 0 = (2 / 69 * 111000, 5 / 69 * 111000)
   \<and> \<bar>fst (ring_radii 0) - 3217.4\<bar> < 0.05
   \<and> \<bar>snd (ring_radii 0) - 8043.5\<bar> < 0.05"
  by (simp add: degrees_per_mile_def radians_def ring_radii_def coverage_rings_2mi_def
      coverage_rings_5mi_def Let_def)

text \<open>
  At latitude 60 the cosine is one half, and the radii are twice those of latitude 0; the
  antenna of the sample region stands at latitude 0.
\<close>

theorem ring_radii_formula_witness:
  "cos (60 * pi / 180) \<noteq> (0::real)
   \<and> degrees_per_mile 60 2 = 4 / 69
   \<and> ring_radii 60 = (4 / 69 * 111000, 10 / 69 * 111000)
   \<and> cos (pt_y (ant_geometry sample_antenna) * pi / 180) \<noteq> 0
   \<and> coverage_rings_2mi [(0, sample_antenna)] ''blue'' =
       [Circle (0, 0) (2 / 69 * 111000) ''blue'' (Some 2) 0.2 None]
   \<and> coverage_rings_5mi [(0, sample_antenna)] ''blue'' =
       [Circle (0, 0) (5 / 69 * 111000) ''blue'' (Some 2) 0.1 (Some ''10,5'')]"
  using ring_radii_formula [where lat = 60 and miles = 2 and row = sample_antenna
      and idx = 0 and col = "''blue''"]
  by (simp add: sample_antenna_def origin_def cos_60)

section \<open>The end of the call\<close>

lemma add_to_layers: "m_layers (add_to fg m) = m_layers m @ [fg]"
  by (simp add: add_to_def)

lemma no_antenna_file_raises:
  "antenna_file inp = None \<Longrightarrow> \<exists>e. create_map_fcc_towers inp rng = Inl e"
  by (simp add: create_map_fcc_towers_def add_antenna_layers_def Let_def
      split: list.split prod.split)

text \<open>
  C2. For the region that supplies the four required datasets and no antenna file the
  call does not return a map: it ends with \<open>UnboundLocalError\<close>, raised by the first of
  the \<open>add_to\<close> calls that follow the antenna section.
\<close>

theorem required_only_raises:
  "create_map_fcc_towers required_only rng = Inl UnboundLocalError"
  by (simp add: create_map_fcc_towers_def add_antenna_layers_def Let_def required_only_def
      split: prod.split)

section \<open>What each section adds to the map\<close>

lemma add_bead_locations_layer_layers:
  "\<exists>bs. m_layers (add_bead_locations_layer m d n c b s) = m_layers m @ bs
       \<and> (bs = [] \<or> (\<exists>l. bs = [l] \<and> fg_name l = n \<and> fg_show l = s \<and> 0 < backing_features l))
       \<and> (d = None \<or> d = Some [] \<longrightarrow> bs = [])"
  by (cases d) (simp_all add: add_bead_locations_layer_def add_to_layers backing_features_def)

lemma round1_name_cases:
  "round1_name inp = ''BEAD Eligible Locations Round 1'' \<or> round1_name inp = ''BEAD Eligible Locations''"
  by (simp add: round1_name_def)

lemma add_bead_layers_layers:
  "\<exists>bs. m_layers (add_bead_layers inp m) = m_layers m @ bs
       \<and> subseq (map fg_name bs)
           [round1_name inp, ''BEAD Eligible Locations Round 2'', ''BEAD Eligible CAIs'']
       \<and> (\<forall>l\<in>set bs. 0 < backing_features l)
       \<and> (\<forall>l\<in>set bs. fg_show l = (fg_name l = round1_name inp))
       \<and> (round2_locations_file inp = Some [] \<longrightarrow>
            ''BEAD Eligible Locations Round 2'' \<notin> fg_name ` set bs)"
proof -
  let ?n1 = "round1_name inp"
  let ?n2 = "''BEAD Eligible Locations Round 2''"
  let ?n3 = "''BEAD Eligible CAIs''"
  define m1 where "m1 = add_bead_locations_layer m (Some (bead_eligible_locations inp))
                 ?n1 ''#01fbff'' ''white'' True"
  define m2 where "m2 = (if round2_locations_file inp \<noteq> None
                then add_bead_locations_layer m1 (round2_locations_file inp)
                       ?n2 ''#01fbff'' ''black'' False
                else m1)"
  define m3 where "m3 = (if cai_locations_file inp \<noteq> None
         then add_bead_locations_layer m2 (cai_locations_file inp)
                ?n3 ''#01fbff'' ''black'' False
         else m2)"
  have m3: "add_bead_layers inp m = m3"
    by (simp add: add_bead_layers_def m1_def m2_def m3_def Let_def)
  obtain b1 where b1: "m_layers m1 = m_layers m @ b1"
    "b1 = [] \<or> (\<exists>l. b1 = [l] \<and> fg_name l = ?n1 \<and> fg_show l = True \<and> 0 < backing_features l)"
    unfolding m1_def using add_bead_locations_layer_layers by blast
  obtain b2 where b2: "m_layers m2 = m_layers m1 @ b2"
    "b2 = [] \<or> (\<exists>l. b2 = [l] \<and> fg_name l = ?n2 \<and> fg_show l = False \<and> 0 < backing_features l)"
    "round2_locations_file inp = Some [] \<longrightarrow> b2 = []"
  proof (cases "round2_locations_file inp \<noteq> None")
    case True
    then have "m2 = add_bead_locations_layer m1 (round2_locations_file inp)
                       ?n2 ''#01fbff'' ''black'' False"
      by (simp add: m2_def)
    then show ?thesis
      using add_bead_locations_layer_layers [of m1 "round2_locations_file inp" ?n2
          "''#01fbff''" "''black''" False] that by auto
  next
    case False
    then have "m_layers m2 = m_layers m1 @ []" by (simp add: m2_def)
    then show ?thesis using that False by blast
  qed
  obtain b3 where b3: "m_layers m3 = m_layers m2 @ b3"
    "b3 = [] \<or> (\<exists>l. b3 = [l] \<and> fg_name l = ?n3 \<and> fg_show l = False \<and> 0 < backing_features l)"
  proof (cases "cai_locations_file inp \<noteq> None")
    case True
    then have "m3 = add_bead_locations_layer m2 (cai_locations_file inp)
                       ?n3 ''#01fbff'' ''black'' False"
      by (simp add: m3_def)
    then show ?thesis
      using add_bead_locations_layer_layers [of m2 "cai_locations_file inp" ?n3
          "''#01fbff''" "''black''" False] that by auto
  next
    case False
    then have "m_layers m3 = m_layers m2 @ []" by (simp add: m3_def)
    then show ?thesis using that by blast
  qed
  have s1: "subseq (map fg_name b1) [?n1]"
    using b1(2) by auto
  have s2: "subseq (map fg_name b2) [?n2]"
    using b2(2) by auto
  have s3: "subseq (map fg_name b3) [?n3]"
    using b3(2) by auto
  have "subseq (map fg_name b1 @ map fg_name b2 @ map fg_name b3) ([?n1] @ [?n2] @ [?n3])"
    by (intro list_emb_append_mono s1 s2 s3)
  then have sub: "subseq (map fg_name (b1 @ b2 @ b3)) [?n1, ?n2, ?n3]"
    by simp
  have pos: "\<forall>l\<in>set (b1 @ b2 @ b3). 0 < backing_features l"
    using b1(2) b2(2) b3(2) by auto
  have vis: "\<forall>l\<in>set (b1 @ b2 @ b3). fg_show l = (fg_name l = ?n1)"
    using b1(2) b2(2) b3(2) round1_name_cases [of inp] by auto
  have r2: "round2_locations_file inp = Some [] \<longrightarrow> ?n2 \<notin> fg_name ` set (b1 @ b2 @ b3)"
    using b1(2) b2(2,3) b3(2) round1_name_cases [of inp] by auto
  have "m_layers (add_bead_layers inp m) = m_layers m @ (b1 @ b2 @ b3)"
    using m3 b1(1) b2(1) b3(1) by simp
  then show ?thesis
    using sub pos vis r2 by blast
qed

lemma add_cci_section_layers:
  "\<exists>cs. m_layers (add_cci_section inp m) = m_layers m @ cs
       \<and> subseq (map fg_name cs) [''CCI DSL'', ''CCI Fiber'']
       \<and> (\<forall>l\<in>set cs. \<not> fg_show l)"
  by (cases "cci_ds_file inp"; cases "cci_fiber_file inp")
    (simp_all add: add_cci_section_def add_cci_layers_def add_to_layers)

lemma add_grid_layers_layers:
  "\<exists>gs. m_layers (add_grid_layers items grid m) = m_layers m @ gs
       \<and> subseq (map fg_name gs)
           (map (\<lambda>(key, (rng_min, rng_max), color). grid_layer_name rng_min rng_max) items)
       \<and> (\<forall>l\<in>set gs. \<not> fg_show l \<and> 0 < backing_features l)"
proof (induction items arbitrary: m)
  case Nil
  show ?case by simp
next
  case (Cons item items)
  obtain key rng_min rng_max color where item: "item = (key, (rng_min, rng_max), color)"
    by (cases item) auto
  let ?names = "map (\<lambda>(key, (rng_min, rng_max), color). grid_layer_name rng_min rng_max) items"
  show ?case
  proof (cases "grid_subset grid rng_min rng_max = []")
    case True
    obtain gs where gs: "m_layers (add_grid_layers items grid m) = m_layers m @ gs"
      "subseq (map fg_name gs) ?names" "\<forall>l\<in>set gs. \<not> fg_show l \<and> 0 < backing_features l"
      using Cons.IH [of m] by blast
    have "m_layers (add_grid_layers (item # items) grid m) = m_layers m @ gs"
      using True gs(1) by (simp add: item)
    moreover have "subseq (map fg_name gs) (grid_layer_name rng_min rng_max # ?names)"
      using gs(2) by (rule list_emb_Cons)
    ultimately show ?thesis
      using gs(3) by (auto simp add: item)
  next
    case False
    define fg_grid where "fg_grid =
       \<lparr>fg_name = grid_layer_name rng_min rng_max, fg_show = False,
        fg_children = [GeoJson [UnaryUnion (map fst (grid_subset grid rng_min rng_max))]
                         color color 1 0.6]\<rparr>"
    obtain gs where gs: "m_layers (add_grid_layers items grid (add_to fg_grid m))
         = m_layers (add_to fg_grid m) @ gs"
      "subseq (map fg_name gs) ?names" "\<forall>l\<in>set gs. \<not> fg_show l \<and> 0 < backing_features l"
      using Cons.IH [of "add_to fg_grid m"] by blast
    have "m_layers (add_grid_layers (item # items) grid m) = m_layers m @ (fg_grid # gs)"
      using False gs(1) by (simp add: item fg_grid_def Let_def add_to_layers)
    moreover have "subseq (map fg_name (fg_grid # gs)) (grid_layer_name rng_min rng_max # ?names)"
      using gs(2) by (simp add: fg_grid_def)
    moreover have "\<forall>l\<in>set (fg_grid # gs). \<not> fg_show l \<and> 0 < backing_features l"
      using gs(3) by (simp add: fg_grid_def backing_features_def)
    ultimately show ?thesis
      by (auto simp add: item simp del: add_grid_layers.simps)
  qed
qed

lemma grid_layer_names:
  "map (\<lambda>(key, (rng_min, rng_max), color). grid_layer_name rng_min rng_max) range_dict =
     [''Grid Layer (1-5 Locations)'', ''Grid Layer (5-10 Locations)'',
      ''Grid Layer (10-20 Locations)'', ''Grid Layer (20-30 Locations)'',
      ''Grid Layer (30-50 Locations)'', ''Grid Layer (50-75 Locations)'',
      ''Grid Layer (75-100 Locations)'', ''Grid Layer (100+ Locations)'']"
  by (simp add: range_dict_def grid_layer_name_def str_int_def str_nat.simps)

text \<open>The grid loop adds the feature group of each range whose subset has a cell, and no other.\<close>

lemma add_grid_layers_exact:
  "m_layers (add_grid_layers items grid m) =
     m_layers m @ map (fg_grid grid)
       (filter (\<lambda>(key, (rng_min, rng_max), color).
                  length (grid_subset grid rng_min rng_max) \<noteq> 0) items)"
  by (induction items grid m rule: add_grid_layers.induct)
    (simp_all add: Let_def add_to_layers fg_grid_def)

lemma fg_grid_name: "prefix ''Grid Layer'' (fg_name (fg_grid grid item))"
  by (auto simp add: fg_grid_def grid_layer_name_def split: prod.splits)

lemma add_wisp_files_layers:
  "\<exists>ws. m_layers (fst (add_wisp_files files m rng)) = m_layers m @ ws
       \<and> (\<forall>l\<in>set ws. prefix ''WISP - '' (fg_name l) \<and> \<not> fg_show l)"
proof (induction files arbitrary: m rng)
  case Nil
  show ?case by simp
next
  case (Cons entry files)
  obtain fname wisp_layer where entry: "entry = (fname, wisp_layer)"
    by (cases entry) auto
  show ?case
  proof (cases "endswith fname ''.sqlite''")
    case False
    then show ?thesis using Cons.IH [of m rng] by (simp add: entry)
  next
    case True
    obtain color rng' where col: "get_wisp_color (splitext_root fname) rng = (color, rng')"
      by (cases "get_wisp_color (splitext_root fname) rng") auto
    define wisp_fg where "wisp_fg =
      \<lparr>fg_name = ''WISP - '' @ splitext_root fname, fg_show = False,
       fg_children = [GeoJson wisp_layer color color 1 0.6]\<rparr>"
    obtain ws where ws: "m_layers (fst (add_wisp_files files (add_to wisp_fg m) rng'))
        = m_layers (add_to wisp_fg m) @ ws"
      "\<forall>l\<in>set ws. prefix ''WISP - '' (fg_name l) \<and> \<not> fg_show l"
      using Cons.IH [of "add_to wisp_fg m" rng'] by blast
    have "m_layers (fst (add_wisp_files (entry # files) m rng)) = m_layers m @ (wisp_fg # ws)"
      using True col ws(1) by (simp add: entry wisp_fg_def Let_def add_to_layers)
    moreover have "\<forall>l\<in>set (wisp_fg # ws). prefix ''WISP - '' (fg_name l) \<and> \<not> fg_show l"
      using ws(2) by (simp add: wisp_fg_def)
    ultimately show ?thesis by blast
  qed
qed

lemma add_wisp_layers_layers:
  "\<exists>ws. m_layers (fst (add_wisp_layers m folder rng)) = m_layers m @ ws
       \<and> (\<forall>l\<in>set ws. prefix ''WISP - '' (fg_name l) \<and> \<not> fg_show l)"
  by (cases folder) (simp_all add: add_wisp_layers_def add_wisp_files_layers)

text \<open>The twelve antenna layers in the order in which they are added.\<close>

lemma add_antenna_layers_layers:
  "add_antenna_layers (Some ad) m = Inr m' \<Longrightarrow>
     m_layers m' = m_layers m @
       antenna_layers ad"
  by (auto simp add: add_antenna_layers_def add_to_layers antenna_layers_def)

lemma create_map_layers:
  assumes "create_map_fcc_towers inp rng = Inr m"
  shows "\<exists>ad bs cs gs ws.
      antenna_file inp = Some ad
    \<and> m_layers m = [fg_state inp, fg_county inp] @ bs @ cs @ gs @ ws @
        antenna_layers ad
    \<and> subseq (map fg_name bs)
        [round1_name inp, ''BEAD Eligible Locations Round 2'', ''BEAD Eligible CAIs'']
    \<and> (\<forall>l\<in>set bs. 0 < backing_features l)
    \<and> (\<forall>l\<in>set bs. fg_show l = (fg_name l = round1_name inp))
    \<and> (round2_locations_file inp = Some [] \<longrightarrow>
         ''BEAD Eligible Locations Round 2'' \<notin> fg_name ` set bs)
    \<and> subseq (map fg_name cs) [''CCI DSL'', ''CCI Fiber'']
    \<and> (\<forall>l\<in>set cs. \<not> fg_show l)
    \<and> subseq (map fg_name gs)
        [''Grid Layer (1-5 Locations)'', ''Grid Layer (5-10 Locations)'',
         ''Grid Layer (10-20 Locations)'', ''Grid Layer (20-30 Locations)'',
         ''Grid Layer (30-50 Locations)'', ''Grid Layer (50-75 Locations)'',
         ''Grid Layer (75-100 Locations)'', ''Grid Layer (100+ Locations)'']
    \<and> (\<forall>l\<in>set gs. \<not> fg_show l \<and> 0 < backing_features l)
    \<and> (\<forall>l\<in>set ws. prefix ''WISP - '' (fg_name l) \<and> \<not> fg_show l)"
proof -
  obtain first_row other_rows where so: "state_outline inp = first_row # other_rows"
    using assms by (cases "state_outline inp") (simp_all add: create_map_fcc_towers_def)
  define m0 where "m0 = \<lparr>m_centre = first_row,
      m_tiles = [''White Background'', ''Google Maps'', ''Google Satellite''],
      m_layers = []\<rparr>"
  define m2 where "m2 = add_to (fg_county inp) (add_to (fg_state inp) m0)"
  define m3 where "m3 = add_bead_layers inp m2"
  define m4 where "m4 = add_cci_section inp m3"
  define m5 where "m5 = add_grid_layers range_dict (grid_analysis_layer inp) m4"
  define m6 where "m6 = fst (add_wisp_layers m5 (wisp_folder inp) rng)"
  have res: "add_antenna_layers (antenna_file inp) m6 = Inr m"
    using assms so
    by (simp add: create_map_fcc_towers_def Let_def m0_def m2_def m3_def m4_def m5_def m6_def
        split: prod.splits)
  then obtain ad where ad: "antenna_file inp = Some ad"
    by (cases "antenna_file inp") (simp_all add: add_antenna_layers_def)
  have l2: "m_layers m2 = [fg_state inp, fg_county inp]"
    by (simp add: m2_def m0_def add_to_layers)
  obtain bs where bs: "m_layers m3 = m_layers m2 @ bs"
    "subseq (map fg_name bs)
        [round1_name inp, ''BEAD Eligible Locations Round 2'', ''BEAD Eligible CAIs'']"
    "\<forall>l\<in>set bs. 0 < backing_features l"
    "\<forall>l\<in>set bs. fg_show l = (fg_name l = round1_name inp)"
    "round2_locations_file inp = Some [] \<longrightarrow>
         ''BEAD Eligible Locations Round 2'' \<notin> fg_name ` set bs"
    unfolding m3_def using add_bead_layers_layers [of inp m2] by blast
  obtain cs where cs: "m_layers m4 = m_layers m3 @ cs"
    "subseq (map fg_name cs) [''CCI DSL'', ''CCI Fiber'']" "\<forall>l\<in>set cs. \<not> fg_show l"
    unfolding m4_def using add_cci_section_layers [of inp m3] by blast
  obtain gs where gs: "m_layers m5 = m_layers m4 @ gs"
    "subseq (map fg_name gs)
        [''Grid Layer (1-5 Locations)'', ''Grid Layer (5-10 Locations)'',
         ''Grid Layer (10-20 Locations)'', ''Grid Layer (20-30 Locations)'',
         ''Grid Layer (30-50 Locations)'', ''Grid Layer (50-75 Locations)'',
         ''Grid Layer (75-100 Locations)'', ''Grid Layer (100+ Locations)'']"
    "\<forall>l\<in>set gs. \<not> fg_show l \<and> 0 < backing_features l"
    unfolding m5_def
    using add_grid_layers_layers [of range_dict "grid_analysis_layer inp" m4]
    unfolding grid_layer_names by blast
  obtain ws where ws: "m_layers m6 = m_layers m5 @ ws"
    "\<forall>l\<in>set ws. prefix ''WISP - '' (fg_name l) \<and> \<not> fg_show l"
    unfolding m6_def using add_wisp_layers_layers [of m5 "wisp_folder inp" rng] by blast
  have "m_layers m = m_layers m6 @
        antenna_layers ad"
    using res ad add_antenna_layers_layers [of ad m6 m] by simp
  then have "m_layers m = [fg_state inp, fg_county inp] @ bs @ cs @ gs @ ws @
        antenna_layers ad"
    using l2 bs(1) cs(1) gs(1) ws(1) by simp
  then show ?thesis
    using ad bs(2-5) cs(2,3) gs(2,3) ws(2) by blast
qed

lemma create_map_returns:
  "state_outline inp \<noteq> [] \<Longrightarrow> antenna_file inp = Some ad \<Longrightarrow>
     \<exists>m. create_map_fcc_towers inp rng = Inr m"
  by (cases "state_outline inp")
    (simp_all add: create_map_fcc_towers_def Let_def add_antenna_layers_def split: prod.split)

section \<open>The sample regions, evaluated\<close>

lemma sample_abbr: "get_state_abbreviation ''Maine'' = Some ''ME''"
  by (simp add: get_state_abbreviation_def STATE_NAME_TO_ABBR_def)

lemma sample_known:
  "known_wisp_color ''Acme Net'' = None"
  "known_wisp_color ''Verizon'' = Some ''#E81123''"
  by code_simp+

lemma sample_files:
  "splitext_root ''Acme Net.sqlite'' = ''Acme Net''"
  "endswith ''Acme Net.sqlite'' ''.sqlite''"
  "splitext_root ''Verizon.sqlite'' = ''Verizon''"
  "endswith ''Verizon.sqlite'' ''.sqlite''"
  "\<not> endswith ''notes.txt'' ''.sqlite''"
  by (simp_all add: splitext_root_def endswith_def)

lemma sample_lower: "lower ''Maine'' = ''maine''"
  by (simp add: lower_def lower_char_def ascii_uppercase_def ascii_lowercase_def)

lemmas sample_eval =
  create_map_fcc_towers_def sample_region_def Let_def add_to_def fg_state_def fg_county_def
  add_bead_layers_def add_bead_locations_layer_def round1_name_def
  add_cci_section_def add_cci_layers_def sample_lower
  range_dict_def grid_subset_def grid_layer_name_def str_int_def str_nat.simps
  add_wisp_layers_def sample_files get_wisp_color_def sample_known hex06_def
  add_antenna_layers_def fg_antennas_def fg_coverage2_other_def fg_coverage5_other_def
  fg_antennas_american_towers_def fg_coverage2_american_def fg_coverage5_american_def
  fg_antennas_sba_towers_def fg_coverage2_sba_def fg_coverage5_sba_def
  fg_antennas_crown_castle_def fg_coverage2_crown_def fg_coverage5_crown_def

lemmas sample_children =
  tower_markers_def tower_data_def coverage_rings_2mi_def coverage_rings_5mi_def
  sample_antenna_def coverage_color_def coverage_styles_def

lemma sample_region_returns: "\<exists>m. create_map_fcc_towers sample_region rng = Inr m"
  by (rule create_map_returns [of _ "[sample_antenna]"]) (simp_all add: sample_region_def)

section \<open>Order of the layers\<close>

text \<open>
  C5, as the specification states it, fails: in the map of the sample region the two
  WISP layers stand before the first antenna layer, and the coverage rings of a group
  stand before the markers of the next group, so the places of the ordering contract
  decrease along the list.
\<close>

theorem wisp_layers_precede_antenna_layers:
  "layer_names (create_map_fcc_towers sample_region (sconst 0)) =
     Inr [''State Outline'', ''County Outline'', ''BEAD Eligible Locations Round 1'',
          ''CCI DSL'', ''Grid Layer (1-5 Locations)'', ''Grid Layer (100+ Locations)'',
          ''WISP - Acme Net'', ''WISP - Verizon'',
          ''Antenna Locations - Other'', ''Other - Coverage 2 Mile'',
          ''Other - Coverage 5 Mile'',
          ''Antenna Locations - American Towers'', ''American Towers - Coverage 2 Mile'',
          ''American Towers - Coverage 5 Mile'',
          ''Antenna Locations - SBA Towers'', ''SBA Towers - Coverage 2 Mile'',
          ''SBA Towers - Coverage 5 Mile'',
          ''Antenna Locations - Crown Castle Towers'', ''Crown Castle - Coverage 2 Mile'',
          ''Crown Castle - Coverage 5 Mile'']
   \<and> \<not> sorted (map contract_place
         [''State Outline'', ''County Outline'', ''BEAD Eligible Locations Round 1'',
          ''CCI DSL'', ''Grid Layer (1-5 Locations)'', ''Grid Layer (100+ Locations)'',
          ''WISP - Acme Net'', ''WISP - Verizon'',
          ''Antenna Locations - Other'', ''Other - Coverage 2 Mile'',
          ''Other - Coverage 5 Mile'',
          ''Antenna Locations - American Towers'', ''American Towers - Coverage 2 Mile'',
          ''American Towers - Coverage 5 Mile'',
          ''Antenna Locations - SBA Towers'', ''SBA Towers - Coverage 2 Mile'',
          ''SBA Towers - Coverage 5 Mile'',
          ''Antenna Locations - Crown Castle Towers'', ''Crown Castle - Coverage 2 Mile'',
          ''Crown Castle - Coverage 5 Mile''])"
proof -
  have "contract_place ''WISP - Verizon'' = 5" "contract_place ''Antenna Locations - Other'' = 3"
    by (simp_all add: contract_place_def)
  then show ?thesis
    by (simp add: sample_eval layer_names_def)
qed

text \<open>
  C5, amended. The layers of every map that is returned stand in this order: State
  Outline, County Outline; the BEAD location layers that are present (round 1, round 2,
  CAI); the CCI layers that are present (DSL, Fiber); the grid layers that are present,
  by ascending range; the WISP layers; then, for the groups Other, American Towers, SBA
  and Crown Castle in turn, the marker layer, the 2-mile ring layer and the 5-mile ring
  layer.
\<close>

theorem layer_order:
  "create_map_fcc_towers inp rng = Inr m \<Longrightarrow>
   \<exists>bead cci grid wisp.
     map fg_name (m_layers m) =
       [''State Outline'', ''County Outline''] @ bead @ cci @ grid @ wisp @
       [''Antenna Locations - Other'', ''Other - Coverage 2 Mile'', ''Other - Coverage 5 Mile'',
        ''Antenna Locations - American Towers'', ''American Towers - Coverage 2 Mile'',
        ''American Towers - Coverage 5 Mile'',
        ''Antenna Locations - SBA Towers'', ''SBA Towers - Coverage 2 Mile'',
        ''SBA Towers - Coverage 5 Mile'',
        ''Antenna Locations - Crown Castle Towers'', ''Crown Castle - Coverage 2 Mile'',
        ''Crown Castle - Coverage 5 Mile'']
     \<and> subseq bead
         [round1_name inp, ''BEAD Eligible Locations Round 2'', ''BEAD Eligible CAIs'']
     \<and> subseq cci [''CCI DSL'', ''CCI Fiber'']
     \<and> subseq grid
         [''Grid Layer (1-5 Locations)'', ''Grid Layer (5-10 Locations)'',
          ''Grid Layer (10-20 Locations)'', ''Grid Layer (20-30 Locations)'',
          ''Grid Layer (30-50 Locations)'', ''Grid Layer (50-75 Locations)'',
          ''Grid Layer (75-100 Locations)'', ''Grid Layer (100+ Locations)'']
     \<and> (\<forall>w\<in>set wisp. prefix ''WISP - '' w)"
proof -
  assume "create_map_fcc_towers inp rng = Inr m"
  from create_map_layers [OF this] obtain ad bs cs gs ws where
    layers: "m_layers m = [fg_state inp, fg_county inp] @ bs @ cs @ gs @ ws @
        antenna_layers ad"
    and bs: "subseq (map fg_name bs)
        [round1_name inp, ''BEAD Eligible Locations Round 2'', ''BEAD Eligible CAIs'']"
    and cs: "subseq (map fg_name cs) [''CCI DSL'', ''CCI Fiber'']"
    and gs: "subseq (map fg_name gs)
        [''Grid Layer (1-5 Locations)'', ''Grid Layer (5-10 Locations)'',
         ''Grid Layer (10-20 Locations)'', ''Grid Layer (20-30 Locations)'',
         ''Grid Layer (30-50 Locations)'', ''Grid Layer (50-75 Locations)'',
         ''Grid Layer (75-100 Locations)'', ''Grid Layer (100+ Locations)'']"
    and ws: "\<forall>l\<in>set ws. prefix ''WISP - '' (fg_name l) \<and> \<not> fg_show l"
    by blast
  have names: "map fg_name (m_layers m) =
       [''State Outline'', ''County Outline''] @ map fg_name bs @ map fg_name cs
       @ map fg_name gs @ map fg_name ws @
       [''Antenna Locations - Other'', ''Other - Coverage 2 Mile'', ''Other - Coverage 5 Mile'',
        ''Antenna Locations - American Towers'', ''American Towers - Coverage 2 Mile'',
        ''American Towers - Coverage 5 Mile'',
        ''Antenna Locations - SBA Towers'', ''SBA Towers - Coverage 2 Mile'',
        ''SBA Towers - Coverage 5 Mile'',
        ''Antenna Locations - Crown Castle Towers'', ''Crown Castle - Coverage 2 Mile'',
        ''Crown Castle - Coverage 5 Mile'']"
    unfolding layers
    by (simp add: antenna_layers_def fg_state_def fg_county_def fg_antennas_def fg_coverage2_other_def
        fg_coverage5_other_def fg_antennas_american_towers_def fg_coverage2_american_def
        fg_coverage5_american_def fg_antennas_sba_towers_def fg_coverage2_sba_def
        fg_coverage5_sba_def fg_antennas_crown_castle_def fg_coverage2_crown_def
        fg_coverage5_crown_def)
  have "\<forall>w\<in>set (map fg_name ws). prefix ''WISP - '' w"
    using ws by simp
  with names bs cs gs show ?thesis
    by blast
qed

theorem layer_order_witness:
  "\<exists>m. create_map_fcc_towers sample_region (sconst 0) = Inr m \<and>
    (\<exists>bead cci grid wisp.
     map fg_name (m_layers m) =
       [''State Outline'', ''County Outline''] @ bead @ cci @ grid @ wisp @
       [''Antenna Locations - Other'', ''Other - Coverage 2 Mile'', ''Other - Coverage 5 Mile'',
        ''Antenna Locations - American Towers'', ''American Towers - Coverage 2 Mile'',
        ''American Towers - Coverage 5 Mile'',
        ''Antenna Locations - SBA Towers'', ''SBA Towers - Coverage 2 Mile'',
        ''SBA Towers - Coverage 5 Mile'',
        ''Antenna Locations - Crown Castle Towers'', ''Crown Castle - Coverage 2 Mile'',
        ''Crown Castle - Coverage 5 Mile'']
     \<and> subseq bead
         [round1_name sample_region, ''BEAD Eligible Locations Round 2'', ''BEAD Eligible CAIs'']
     \<and> subseq cci [''CCI DSL'', ''CCI Fiber'']
     \<and> subseq grid
         [''Grid Layer (1-5 Locations)'', ''Grid Layer (5-10 Locations)'',
          ''Grid Layer (10-20 Locations)'', ''Grid Layer (20-30 Locations)'',
          ''Grid Layer (30-50 Locations)'', ''Grid Layer (50-75 Locations)'',
          ''Grid Layer (75-100 Locations)'', ''Grid Layer (100+ Locations)'']
     \<and> (\<forall>w\<in>set wisp. prefix ''WISP - '' w))"
proof -
  obtain m where m: "create_map_fcc_towers sample_region (sconst 0) = Inr m"
    using sample_region_returns by blast
  show ?thesis
    using m layer_order [OF m] by blast
qed

section \<open>Names of the layers\<close>

lemma subseq_in_set: "subseq xs ys \<Longrightarrow> x \<in> set xs \<Longrightarrow> x \<in> set ys"
  by (erule list_emb_set) auto

lemma subseq_set_mono: "subseq xs ys \<Longrightarrow> set xs \<subseteq> set ys"
  by (rule subsetI) (erule subseq_in_set, assumption)

lemma antenna_layer_names:
  "map fg_name (antenna_layers ad) =
     [''Antenna Locations - Other'', ''Other - Coverage 2 Mile'', ''Other - Coverage 5 Mile'',
      ''Antenna Locations - American Towers'', ''American Towers - Coverage 2 Mile'',
      ''American Towers - Coverage 5 Mile'',
      ''Antenna Locations - SBA Towers'', ''SBA Towers - Coverage 2 Mile'',
      ''SBA Towers - Coverage 5 Mile'',
      ''Antenna Locations - Crown Castle Towers'', ''Crown Castle - Coverage 2 Mile'',
      ''Crown Castle - Coverage 5 Mile'']"
  by (simp add: antenna_layers_def fg_antennas_def fg_coverage2_other_def
      fg_coverage5_other_def fg_antennas_american_towers_def fg_coverage2_american_def
      fg_coverage5_american_def fg_antennas_sba_towers_def fg_coverage2_sba_def
      fg_coverage5_sba_def fg_antennas_crown_castle_def fg_coverage2_crown_def
      fg_coverage5_crown_def)

lemma layer_names_all:
  assumes res: "create_map_fcc_towers inp rng = Inr m"
    and fixed: "\<forall>n\<in>set fixed_layer_names. N n"
    and wisp: "\<And>w. N (''WISP - '' @ w)"
  shows "\<forall>l\<in>set (m_layers m). N (fg_name l)"
proof -
  from create_map_layers [OF res] obtain ad bs cs gs ws where
    layers: "m_layers m = [fg_state inp, fg_county inp] @ bs @ cs @ gs @ ws @
        antenna_layers ad"
    and bs: "subseq (map fg_name bs)
        [round1_name inp, ''BEAD Eligible Locations Round 2'', ''BEAD Eligible CAIs'']"
    and cs: "subseq (map fg_name cs) [''CCI DSL'', ''CCI Fiber'']"
    and gs: "subseq (map fg_name gs)
        [''Grid Layer (1-5 Locations)'', ''Grid Layer (5-10 Locations)'',
         ''Grid Layer (10-20 Locations)'', ''Grid Layer (20-30 Locations)'',
         ''Grid Layer (30-50 Locations)'', ''Grid Layer (50-75 Locations)'',
         ''Grid Layer (75-100 Locations)'', ''Grid Layer (100+ Locations)'']"
    and ws: "\<forall>l\<in>set ws. prefix ''WISP - '' (fg_name l) \<and> \<not> fg_show l"
    by blast
  have r1: "round1_name inp \<in> set fixed_layer_names"
  proof (cases "round1_name inp = ''BEAD Eligible Locations Round 1''")
    case True
    then show ?thesis by (simp add: fixed_layer_names_def)
  next
    case False
    then have "round1_name inp = ''BEAD Eligible Locations''"
      using round1_name_cases [of inp] by blast
    then show ?thesis by (simp add: fixed_layer_names_def)
  qed
  have "set [''BEAD Eligible Locations Round 2'', ''BEAD Eligible CAIs'']
      \<subseteq> set fixed_layer_names"
    by (simp add: fixed_layer_names_def)
  with r1 have "set [round1_name inp, ''BEAD Eligible Locations Round 2'',
      ''BEAD Eligible CAIs''] \<subseteq> set fixed_layer_names"
    by simp
  with subseq_set_mono [OF bs] have b: "set (map fg_name bs) \<subseteq> set fixed_layer_names"
    by blast
  have "set [''CCI DSL'', ''CCI Fiber''] \<subseteq> set fixed_layer_names"
    by (simp add: fixed_layer_names_def)
  with subseq_set_mono [OF cs] have c: "set (map fg_name cs) \<subseteq> set fixed_layer_names"
    by blast
  have "set [''Grid Layer (1-5 Locations)'', ''Grid Layer (5-10 Locations)'',
         ''Grid Layer (10-20 Locations)'', ''Grid Layer (20-30 Locations)'',
         ''Grid Layer (30-50 Locations)'', ''Grid Layer (50-75 Locations)'',
         ''Grid Layer (75-100 Locations)'', ''Grid Layer (100+ Locations)'']
      \<subseteq> set fixed_layer_names"
    by (simp add: fixed_layer_names_def)
  with subseq_set_mono [OF gs] have g: "set (map fg_name gs) \<subseteq> set fixed_layer_names"
    by blast
  have pre: "fg_name (fg_state inp) \<in> set fixed_layer_names"
    "fg_name (fg_county inp) \<in> set fixed_layer_names"
    by (simp_all add: fixed_layer_names_def fg_state_def fg_county_def)
  have "set (map fg_name (antenna_layers ad)) \<subseteq> set fixed_layer_names"
    unfolding antenna_layer_names by (simp add: fixed_layer_names_def)
  then have a: "fg_name l \<in> set fixed_layer_names" if "l \<in> set (antenna_layers ad)" for l
    using that by auto
  have b': "fg_name l \<in> set fixed_layer_names" if "l \<in> set bs" for l
    using that b by auto
  have c': "fg_name l \<in> set fixed_layer_names" if "l \<in> set cs" for l
    using that c by auto
  have g': "fg_name l \<in> set fixed_layer_names" if "l \<in> set gs" for l
    using that g by auto
  have w: "N (fg_name l)" if "l \<in> set ws" for l
  proof -
    from ws that have "prefix ''WISP - '' (fg_name l)" by blast
    then obtain r where "fg_name l = ''WISP - '' @ r" by (rule prefixE)
    then show ?thesis using wisp [of r] by simp
  qed
  show ?thesis
  proof
    fix l assume "l \<in> set (m_layers m)"
    then consider "l = fg_state inp" | "l = fg_county inp" | "l \<in> set bs" | "l \<in> set cs"
      | "l \<in> set gs" | "l \<in> set ws" | "l \<in> set (antenna_layers ad)"
      unfolding layers by auto
    then show "N (fg_name l)"
    proof cases
      case 1 then show ?thesis using pre(1) fixed by blast
    next
      case 2 then show ?thesis using pre(2) fixed by blast
    next
      case 3 then show ?thesis using b' fixed by blast
    next
      case 4 then show ?thesis using c' fixed by blast
    next
      case 5 then show ?thesis using g' fixed by blast
    next
      case 6 then show ?thesis using w by blast
    next
      case 7 then show ?thesis using a fixed by blast
    qed
  qed
qed

section \<open>The aggregate coverage groups\<close>

text \<open>
  C9. The groups named "Antenna Coverage (2 Miles)" and "Antenna Coverage (5 Miles)" are
  built and hold one circle for each row of the antenna table, yet they are never added
  to the map: no layer of a returned map has either name, while the ring layers of the
  four groups are all there.
\<close>

theorem aggregate_coverage_never_attached:
  "fg_name (fg_coverage2 ad) = ''Antenna Coverage (2 Miles)''
   \<and> fg_name (fg_coverage5 ad) = ''Antenna Coverage (5 Miles)''
   \<and> length (fg_children (fg_coverage2 ad)) = length ad
   \<and> length (fg_children (fg_coverage5 ad)) = length ad
   \<and> (create_map_fcc_towers inp rng = Inr m \<longrightarrow>
        ''Antenna Coverage (2 Miles)'' \<notin> set (map fg_name (m_layers m))
      \<and> ''Antenna Coverage (5 Miles)'' \<notin> set (map fg_name (m_layers m))
      \<and> set [''Other - Coverage 2 Mile'', ''Other - Coverage 5 Mile'',
             ''American Towers - Coverage 2 Mile'', ''American Towers - Coverage 5 Mile'',
             ''SBA Towers - Coverage 2 Mile'', ''SBA Towers - Coverage 5 Mile'',
             ''Crown Castle - Coverage 2 Mile'', ''Crown Castle - Coverage 5 Mile'']
          \<subseteq> set (map fg_name (m_layers m)))"
proof -
  have groups: "fg_name (fg_coverage2 ad) = ''Antenna Coverage (2 Miles)''
      \<and> fg_name (fg_coverage5 ad) = ''Antenna Coverage (5 Miles)''
      \<and> length (fg_children (fg_coverage2 ad)) = length ad
      \<and> length (fg_children (fg_coverage5 ad)) = length ad"
    by (simp add: fg_coverage2_def fg_coverage5_def)
  have absent: "''Antenna Coverage (2 Miles)'' \<notin> set (map fg_name (m_layers m))
      \<and> ''Antenna Coverage (5 Miles)'' \<notin> set (map fg_name (m_layers m))"
    if res: "create_map_fcc_towers inp rng = Inr m"
  proof -
    have "\<forall>l\<in>set (m_layers m).
        fg_name l \<noteq> ''Antenna Coverage (2 Miles)'' \<and> fg_name l \<noteq> ''Antenna Coverage (5 Miles)''"
      by (rule layer_names_all [OF res]) (simp_all add: fixed_layer_names_def)
    then show ?thesis by auto
  qed
  have present: "set [''Other - Coverage 2 Mile'', ''Other - Coverage 5 Mile'',
             ''American Towers - Coverage 2 Mile'', ''American Towers - Coverage 5 Mile'',
             ''SBA Towers - Coverage 2 Mile'', ''SBA Towers - Coverage 5 Mile'',
             ''Crown Castle - Coverage 2 Mile'', ''Crown Castle - Coverage 5 Mile'']
          \<subseteq> set (map fg_name (m_layers m))"
    if res: "create_map_fcc_towers inp rng = Inr m"
  proof -
    from create_map_layers [OF res] obtain ad' bs cs gs ws where
      layers: "m_layers m = [fg_state inp, fg_county inp] @ bs @ cs @ gs @ ws @
        antenna_layers ad'"
      by blast
    have "set (map fg_name (antenna_layers ad')) \<subseteq> set (map fg_name (m_layers m))"
      unfolding layers by auto
    moreover have "set [''Other - Coverage 2 Mile'', ''Other - Coverage 5 Mile'',
             ''American Towers - Coverage 2 Mile'', ''American Towers - Coverage 5 Mile'',
             ''SBA Towers - Coverage 2 Mile'', ''SBA Towers - Coverage 5 Mile'',
             ''Crown Castle - Coverage 2 Mile'', ''Crown Castle - Coverage 5 Mile'']
          \<subseteq> set (map fg_name (antenna_layers ad'))"
      unfolding antenna_layer_names by simp
    ultimately show ?thesis
      by (rule order.trans [rotated])
  qed
  show ?thesis
    using groups absent present by blast
qed

theorem aggregate_coverage_never_attached_witness:
  "\<exists>m. create_map_fcc_towers sample_region (sconst 0) = Inr m
     \<and> length (fg_children (fg_coverage2 [sample_antenna])) = 1
     \<and> length (fg_children (fg_coverage5 [sample_antenna])) = 1
     \<and> ''Antenna Coverage (2 Miles)'' \<notin> set (map fg_name (m_layers m))
     \<and> ''Antenna Coverage (5 Miles)'' \<notin> set (map fg_name (m_layers m))
     \<and> ''Other - Coverage 2 Mile'' \<in> set (map fg_name (m_layers m))"
proof -
  obtain m where m: "create_map_fcc_towers sample_region (sconst 0) = Inr m"
    using sample_region_returns by blast
  show ?thesis
    using m aggregate_coverage_never_attached [of "[sample_antenna]" sample_region "sconst 0" m]
    by auto
qed

section \<open>Layers and their features\<close>

text \<open>
  The grid layers of a map that is returned are the feature groups of the ranges whose
  subset has a cell, in the order of \<open>range_dict\<close>: no other section adds a layer whose
  name starts with \<open>Grid Layer\<close>.
\<close>

lemma create_map_grid_layers:
  assumes "create_map_fcc_towers inp rng = Inr m"
  shows "grid_layers m =
     map (fg_grid (grid_analysis_layer inp)) (nonempty_ranges (grid_analysis_layer inp))"
proof -
  let ?G = "\<lambda>l. prefix ''Grid Layer'' (fg_name l)"
  obtain first_row other_rows where so: "state_outline inp = first_row # other_rows"
    using assms by (cases "state_outline inp") (simp_all add: create_map_fcc_towers_def)
  define m0 where "m0 = \<lparr>m_centre = first_row,
      m_tiles = [''White Background'', ''Google Maps'', ''Google Satellite''],
      m_layers = []\<rparr>"
  define m2 where "m2 = add_to (fg_county inp) (add_to (fg_state inp) m0)"
  define m3 where "m3 = add_bead_layers inp m2"
  define m4 where "m4 = add_cci_section inp m3"
  define m5 where "m5 = add_grid_layers range_dict (grid_analysis_layer inp) m4"
  define m6 where "m6 = fst (add_wisp_layers m5 (wisp_folder inp) rng)"
  have res: "add_antenna_layers (antenna_file inp) m6 = Inr m"
    using assms so
    by (simp add: create_map_fcc_towers_def Let_def m0_def m2_def m3_def m4_def m5_def m6_def
        split: prod.splits)
  then obtain ad where ad: "antenna_file inp = Some ad"
    by (cases "antenna_file inp") (simp_all add: add_antenna_layers_def)
  have f2: "filter ?G (m_layers m2) = []"
    by (simp add: m2_def m0_def add_to_layers fg_state_def fg_county_def)
  obtain bs where bs: "m_layers m3 = m_layers m2 @ bs"
    "subseq (map fg_name bs)
        [round1_name inp, ''BEAD Eligible Locations Round 2'', ''BEAD Eligible CAIs'']"
    unfolding m3_def using add_bead_layers_layers [of inp m2] by blast
  have "\<not> ?G l" if "l \<in> set bs" for l
  proof -
    have "fg_name l \<in> set [round1_name inp, ''BEAD Eligible Locations Round 2'',
        ''BEAD Eligible CAIs'']"
      using subseq_set_mono [OF bs(2)] that by auto
    then show ?thesis using round1_name_cases [of inp] by auto
  qed
  then have f3: "filter ?G bs = []"
    by (simp add: filter_empty_conv)
  obtain cs where cs: "m_layers m4 = m_layers m3 @ cs"
    "subseq (map fg_name cs) [''CCI DSL'', ''CCI Fiber'']"
    unfolding m4_def using add_cci_section_layers [of inp m3] by blast
  have "\<not> ?G l" if "l \<in> set cs" for l
  proof -
    have "fg_name l \<in> set [''CCI DSL'', ''CCI Fiber'']"
      using subseq_set_mono [OF cs(2)] that by auto
    then show ?thesis by auto
  qed
  then have f4: "filter ?G cs = []"
    by (simp add: filter_empty_conv)
  have g5: "m_layers m5 = m_layers m4 @
      map (fg_grid (grid_analysis_layer inp)) (nonempty_ranges (grid_analysis_layer inp))"
    by (simp add: m5_def add_grid_layers_exact nonempty_ranges_def)
  have f5: "filter ?G (map (fg_grid (grid_analysis_layer inp))
        (nonempty_ranges (grid_analysis_layer inp)))
      = map (fg_grid (grid_analysis_layer inp)) (nonempty_ranges (grid_analysis_layer inp))"
    by (simp add: filter_id_conv fg_grid_name)
  obtain ws where ws: "m_layers m6 = m_layers m5 @ ws"
    "\<forall>l\<in>set ws. prefix ''WISP - '' (fg_name l) \<and> \<not> fg_show l"
    unfolding m6_def using add_wisp_layers_layers [of m5 "wisp_folder inp" rng] by blast
  have "\<not> ?G l" if "l \<in> set ws" for l
  proof -
    have "prefix ''WISP - '' (fg_name l)" using ws(2) that by blast
    then show ?thesis by (elim prefixE) auto
  qed
  then have f6: "filter ?G ws = []"
    by (simp add: filter_empty_conv)
  have "\<forall>n\<in>set (map fg_name (antenna_layers ad)). \<not> prefix ''Grid Layer'' n"
    unfolding antenna_layer_names by simp
  then have f7: "filter ?G (antenna_layers ad) = []"
    by (simp add: filter_empty_conv)
  have "m_layers m = m_layers m6 @ antenna_layers ad"
    using res ad add_antenna_layers_layers [of ad m6 m] by simp
  then have "m_layers m = m_layers m2 @ bs @ cs @
      map (fg_grid (grid_analysis_layer inp)) (nonempty_ranges (grid_analysis_layer inp))
      @ ws @ antenna_layers ad"
    using bs(1) cs(1) g5 ws(1) by simp
  then show ?thesis
    unfolding grid_layers_def using f2 f3 f4 f5 f6 f7 by simp
qed

text \<open>
  C4, as the specification states it, fails: the antenna table of the sample region has
  one row, of the group Other, and the map still has the marker layer and the two ring
  layers of American Towers, of SBA and of Crown Castle, each with no feature.
\<close>

theorem empty_antenna_layers_are_emitted:
  "layer_features (create_map_fcc_towers sample_region (sconst 0)) =
     Inr [(''State Outline'', 1), (''County Outline'', 4),
          (''BEAD Eligible Locations Round 1'', 1), (''CCI DSL'', 1),
          (''Grid Layer (1-5 Locations)'', 1), (''Grid Layer (100+ Locations)'', 1),
          (''WISP - Acme Net'', 1), (''WISP - Verizon'', 1),
          (''Antenna Locations - Other'', 1), (''Other - Coverage 2 Mile'', 1),
          (''Other - Coverage 5 Mile'', 1),
          (''Antenna Locations - American Towers'', 0),
          (''American Towers - Coverage 2 Mile'', 0),
          (''American Towers - Coverage 5 Mile'', 0),
          (''Antenna Locations - SBA Towers'', 0), (''SBA Towers - Coverage 2 Mile'', 0),
          (''SBA Towers - Coverage 5 Mile'', 0),
          (''Antenna Locations - Crown Castle Towers'', 0),
          (''Crown Castle - Coverage 2 Mile'', 0),
          (''Crown Castle - Coverage 5 Mile'', 0)]"
  by (simp add: sample_eval sample_children layer_features_def backing_features_def)

text \<open>
  C4, amended. In every map that is returned the State Outline layer, every BEAD
  location layer and every grid layer has at least one feature; when the second-round
  dataset is there and empty, the map has no second-round layer; the grid layers of the
  map are the layers of the ranges that hold at least one cell of the grid, one layer
  for each such range and none for a range without a cell; and the twelve antenna layers
  are in the map whatever the number of rows of each group.
\<close>

theorem point_and_grid_layers_are_nonempty:
  "create_map_fcc_towers inp rng = Inr m \<Longrightarrow>
     (\<forall>l\<in>set (m_layers m).
        fg_name l = ''State Outline'' \<or> prefix ''BEAD Eligible'' (fg_name l)
          \<or> prefix ''Grid Layer'' (fg_name l) \<longrightarrow> 0 < backing_features l)
     \<and> (round2_locations_file inp = Some [] \<longrightarrow>
          ''BEAD Eligible Locations Round 2'' \<notin> set (map fg_name (m_layers m)))
     \<and> grid_layers m =
         map (fg_grid (grid_analysis_layer inp)) (nonempty_ranges (grid_analysis_layer inp))
     \<and> (\<exists>ad. antenna_file inp = Some ad
          \<and> set (antenna_layers ad)
              \<subseteq> set (m_layers m))"
proof -
  assume res: "create_map_fcc_towers inp rng = Inr m"
  let ?P = "\<lambda>l. fg_name l = ''State Outline'' \<or> prefix ''BEAD Eligible'' (fg_name l)
          \<or> prefix ''Grid Layer'' (fg_name l)"
  let ?R2 = "''BEAD Eligible Locations Round 2''"
  from create_map_layers [OF res] obtain ad bs cs gs ws where
    ad: "antenna_file inp = Some ad"
    and layers: "m_layers m = [fg_state inp, fg_county inp] @ bs @ cs @ gs @ ws @
        antenna_layers ad"
    and bs: "\<forall>l\<in>set bs. 0 < backing_features l"
      "round2_locations_file inp = Some [] \<longrightarrow> ?R2 \<notin> fg_name ` set bs"
    and cs: "subseq (map fg_name cs) [''CCI DSL'', ''CCI Fiber'']"
    and gs: "subseq (map fg_name gs)
        [''Grid Layer (1-5 Locations)'', ''Grid Layer (5-10 Locations)'',
         ''Grid Layer (10-20 Locations)'', ''Grid Layer (20-30 Locations)'',
         ''Grid Layer (30-50 Locations)'', ''Grid Layer (50-75 Locations)'',
         ''Grid Layer (75-100 Locations)'', ''Grid Layer (100+ Locations)'']"
      "\<forall>l\<in>set gs. \<not> fg_show l \<and> 0 < backing_features l"
    and ws: "\<forall>l\<in>set ws. prefix ''WISP - '' (fg_name l) \<and> \<not> fg_show l"
    by blast
  have state: "0 < backing_features (fg_state inp)"
    using res by (cases "state_outline inp")
      (simp_all add: create_map_fcc_towers_def fg_state_def backing_features_def)
  have county: "\<not> ?P (fg_county inp)"
    by (simp add: fg_county_def)
  have cci: "\<not> ?P l" if "l \<in> set cs" for l
  proof -
    have "fg_name l \<in> set [''CCI DSL'', ''CCI Fiber'']"
      using subseq_set_mono [OF cs] that by auto
    then show ?thesis by auto
  qed
  have wisp: "\<not> ?P l" if "l \<in> set ws" for l
  proof -
    have "prefix ''WISP - '' (fg_name l)" using ws that by blast
    then show ?thesis by (elim prefixE) auto
  qed
  have "\<forall>n\<in>set (map fg_name (antenna_layers ad)).
      n \<noteq> ''State Outline'' \<and> \<not> prefix ''BEAD Eligible'' n \<and> \<not> prefix ''Grid Layer'' n"
    unfolding antenna_layer_names by simp
  then have antenna: "\<not> ?P l" if "l \<in> set (antenna_layers ad)" for l
    using that by auto
  have first: "\<forall>l\<in>set (m_layers m). ?P l \<longrightarrow> 0 < backing_features l"
  proof (intro ballI impI)
    fix l assume l: "l \<in> set (m_layers m)" and p: "?P l"
    from l consider
        "l = fg_state inp" | "l = fg_county inp"
      | "l \<in> set bs" | "l \<in> set cs" | "l \<in> set gs" | "l \<in> set ws"
      | "l \<in> set (antenna_layers ad)"
      unfolding layers by auto
    then show "0 < backing_features l"
      using state county cci wisp antenna bs(1) gs(2) p by cases blast+
  qed
  have second: "?R2 \<notin> set (map fg_name (m_layers m))"
    if r2: "round2_locations_file inp = Some []"
  proof
    assume "?R2 \<in> set (map fg_name (m_layers m))"
    then obtain l where l: "l \<in> set (m_layers m)" "fg_name l = ?R2"
      by auto
    then have p: "?P l" by simp
    from l(1) consider
        "l = fg_state inp" | "l = fg_county inp"
      | "l \<in> set bs" | "l \<in> set cs" | "l \<in> set gs" | "l \<in> set ws"
      | "l \<in> set (antenna_layers ad)"
      unfolding layers by auto
    then show False
    proof cases
      case 1
      then show ?thesis using l(2) by (simp add: fg_state_def)
    next
      case 2
      then show ?thesis using county p by blast
    next
      case 3
      then show ?thesis using bs(2) r2 l(2) by force
    next
      case 4
      then show ?thesis using cci p by blast
    next
      case 5
      then have "fg_name l \<in> set
        [''Grid Layer (1-5 Locations)'', ''Grid Layer (5-10 Locations)'',
         ''Grid Layer (10-20 Locations)'', ''Grid Layer (20-30 Locations)'',
         ''Grid Layer (30-50 Locations)'', ''Grid Layer (50-75 Locations)'',
         ''Grid Layer (75-100 Locations)'', ''Grid Layer (100+ Locations)'']"
        using subseq_set_mono [OF gs(1)] by auto
      then show ?thesis using l(2) by auto
    next
      case 6
      then show ?thesis using wisp p by blast
    next
      case 7
      then show ?thesis using antenna p by blast
    qed
  qed
  have third: "set (antenna_layers ad)
              \<subseteq> set (m_layers m)"
    unfolding layers by auto
  have fourth: "grid_layers m =
      map (fg_grid (grid_analysis_layer inp)) (nonempty_ranges (grid_analysis_layer inp))"
    using res by (rule create_map_grid_layers)
  show ?thesis
    using first second third fourth ad by blast
qed

text \<open>
  In the sample region the ranges 1-5 and 100+ hold a cell of the grid and the six
  others hold none: the map has the two grid layers of these ranges.
\<close>

theorem point_and_grid_layers_are_nonempty_witness:
  "\<exists>m. create_map_fcc_towers sample_region (sconst 0) = Inr m
     \<and> round2_locations_file sample_region = Some []
     \<and> (\<forall>l\<in>set (m_layers m).
          fg_name l = ''State Outline'' \<or> prefix ''BEAD Eligible'' (fg_name l)
            \<or> prefix ''Grid Layer'' (fg_name l) \<longrightarrow> 0 < backing_features l)
     \<and> ''BEAD Eligible Locations Round 2'' \<notin> set (map fg_name (m_layers m))
     \<and> map fst (nonempty_ranges (grid_analysis_layer sample_region)) = [''0'', ''7'']
     \<and> map fg_name (grid_layers m) =
         [''Grid Layer (1-5 Locations)'', ''Grid Layer (100+ Locations)'']
     \<and> fg_antennas_sba_towers [sample_antenna] \<in> set (m_layers m)
     \<and> backing_features (fg_antennas_sba_towers [sample_antenna]) = 0"
proof -
  obtain m where m: "create_map_fcc_towers sample_region (sconst 0) = Inr m"
    using sample_region_returns by blast
  have r2: "round2_locations_file sample_region = Some []"
    and ad: "antenna_file sample_region = Some [sample_antenna]"
    by (simp_all add: sample_region_def)
  have empty: "backing_features (fg_antennas_sba_towers [sample_antenna]) = 0"
    by (simp add: fg_antennas_sba_towers_def sample_children backing_features_def)
  have mem: "fg_antennas_sba_towers [sample_antenna] \<in> set (antenna_layers [sample_antenna])"
    by (simp add: antenna_layers_def)
  have ne: "nonempty_ranges (grid_analysis_layer sample_region) =
      [(''0'', (1, 5), ''#e4e4f3''), (''7'', (100, 50000), ''#121293'')]"
    by (simp add: nonempty_ranges_def sample_region_def range_dict_def grid_subset_def)
  have names: "map fg_name (map (fg_grid (grid_analysis_layer sample_region))
        (nonempty_ranges (grid_analysis_layer sample_region))) =
      [''Grid Layer (1-5 Locations)'', ''Grid Layer (100+ Locations)'']"
    by (simp add: ne fg_grid_def grid_layer_name_def str_int_def str_nat.simps)
  show ?thesis
    using m r2 ad empty mem ne names point_and_grid_layers_are_nonempty [OF m]
    by auto
qed

section \<open>Two runs on the same inputs\<close>








section \<open>The join of the CBRS table with the counties\<close>

lemma get_state_abbreviation_nonempty:
  assumes "get_state_abbreviation n = Some a"
  shows "a \<noteq> []"
proof -
  have "a \<in> snd ` set STATE_NAME_TO_ABBR \<or> a \<in> snd ` set variations"
    using assms
    by (auto simp add: get_state_abbreviation_def split: option.splits
        dest!: map_of_SomeD intro: rev_image_eqI)
  moreover have "[] \<notin> snd ` set STATE_NAME_TO_ABBR"
    by (simp add: STATE_NAME_TO_ABBR_def)
  moreover have "[] \<notin> snd ` set variations"
    by (simp add: variations_def)
  ultimately show ?thesis by blast
qed

lemma cbrs_info_eq:
  assumes "cbrs_file inp = Some rows"
    and "get_state_abbreviation (state_name inp) = Some abbr"
  shows "cbrs_info (cbrs_data_of inp) row =
     filter (\<lambda>r. county_name r = row_name row) (filter (\<lambda>r. state_abbr r = abbr) rows)"
proof -
  have "abbr \<noteq> []"
    using assms(2) by (rule get_state_abbreviation_nonempty)
  then show ?thesis
    using assms
    by (auto simp add: cbrs_info_def cbrs_data_of_def load_cbrs_data_filtered_def
        groupby_county_name_def Let_def filter_empty_conv)
qed

lemma length_filter_split:
  "k \<notin> set ks \<Longrightarrow>
   length (filter (\<lambda>r. f r \<in> set (k # ks)) rows) =
     length (filter (\<lambda>r. f r = k) rows) + length (filter (\<lambda>r. f r \<in> set ks) rows)"
  by (induction rows) auto

lemma sum_length_filter_keys:
  "distinct ks \<Longrightarrow>
   sum_list (map (\<lambda>k. length (filter (\<lambda>r. f r = k) rows)) ks) =
     length (filter (\<lambda>r. f r \<in> set ks) rows)"
proof (induction ks)
  case Nil
  show ?case by simp
next
  case (Cons k ks)
  then have "k \<notin> set ks" and "distinct ks" by simp_all
  then show ?case
    using Cons.IH length_filter_split [of k ks f rows] by simp
qed

text \<open>
  The map does not depend on the rows of the CBRS table that match no county row: the
  county popups are the only readers of the table, and each looks up its own name.
\<close>

lemma fg_state_cbrs: "fg_state (inp\<lparr>cbrs_file := x\<rparr>) = fg_state inp"
  by (simp add: fg_state_def)

lemma add_bead_layers_cbrs: "add_bead_layers (inp\<lparr>cbrs_file := x\<rparr>) m = add_bead_layers inp m"
  by (simp add: add_bead_layers_def round1_name_def Let_def)

lemma add_cci_section_cbrs: "add_cci_section (inp\<lparr>cbrs_file := x\<rparr>) m = add_cci_section inp m"
  by (simp add: add_cci_section_def cong: if_cong)

lemma cbrs_info_matched:
  assumes "cbrs_file inp = Some rows"
    and "get_state_abbreviation (state_name inp) = Some abbr"
    and "row \<in> set (county_outline inp)"
  shows "cbrs_info (cbrs_data_of (inp\<lparr>cbrs_file := Some (matched_rows inp rows)\<rparr>)) row =
     cbrs_info (cbrs_data_of inp) row"
proof -
  let ?inp' = "inp\<lparr>cbrs_file := Some (matched_rows inp rows)\<rparr>"
  have a: "cbrs_file ?inp' = Some (matched_rows inp rows)"
    by simp
  have b: "get_state_abbreviation (state_name ?inp') = Some abbr"
    using assms(2) by simp
  have "filter (\<lambda>r. county_name r = row_name row)
          (filter (\<lambda>r. state_abbr r = abbr) (matched_rows inp rows)) =
        filter (\<lambda>r. county_name r = row_name row) (filter (\<lambda>r. state_abbr r = abbr) rows)"
    using assms(3) unfolding matched_rows_def by (induction rows) auto
  then show ?thesis
    by (simp only: cbrs_info_eq [OF a b] cbrs_info_eq [OF assms(1,2)])
qed

lemma fg_county_matched:
  assumes "cbrs_file inp = Some rows"
    and "get_state_abbreviation (state_name inp) = Some abbr"
  shows "fg_county (inp\<lparr>cbrs_file := Some (matched_rows inp rows)\<rparr>) = fg_county inp"
  using cbrs_info_matched [OF assms] by (simp add: fg_county_def)

lemma create_map_matched:
  assumes "cbrs_file inp = Some rows"
    and "get_state_abbreviation (state_name inp) = Some abbr"
  shows "create_map_fcc_towers (inp\<lparr>cbrs_file := Some (matched_rows inp rows)\<rparr>) rng =
     create_map_fcc_towers inp rng"
  by (cases "state_outline inp")
    (simp_all add: create_map_fcc_towers_def Let_def fg_county_matched [OF assms] fg_state_cbrs
      add_bead_layers_cbrs add_cci_section_cbrs)

text \<open>
  C8, as the specification states it, fails: the program keeps no count of the rows it
  leaves out, and the equation does not hold. The CBRS table of the sample region has
  three rows; one is joined to a county, one names a county that is not in the outline,
  and one is of another state and is neither joined nor without a matching county.
\<close>

theorem rows_of_other_states_break_conservation:
  "cbrs_file sample_region = Some sample_cbrs
   \<and> length (unmatched_rows sample_region sample_cbrs) = 1
   \<and> sum_list (map length (county_cbrs_info sample_region)) = 1
   \<and> length sample_cbrs = 3
   \<and> length (unmatched_rows sample_region sample_cbrs)
       + sum_list (map length (county_cbrs_info sample_region)) \<noteq> length sample_cbrs"
  by (simp add: sample_region_def sample_cbrs_def unmatched_rows_def county_cbrs_info_def
      cbrs_info_def cbrs_data_of_def sample_abbr load_cbrs_data_filtered_def
      groupby_county_name_def Let_def)

text \<open>
  C8, amended. When the CBRS file is there and the state has an abbreviation, a row
  whose county name is the name of no row of the county outline is in no county's list
  of records, whatever the names of the county rows; and the map that is returned is the
  map of the table without these rows, so that nothing in it counts them. When moreover
  the names of the county rows are distinct, the rows of the state whose county name
  matches no county row and the rows joined to the counties add up to the rows of the
  state, not to the rows of the table.
\<close>

theorem join_conserves_rows_of_the_state:
  assumes "cbrs_file inp = Some rows"
    and "get_state_abbreviation (state_name inp) = Some abbr"
  shows "(\<forall>r\<in>set (unmatched_rows inp rows). \<forall>info\<in>set (county_cbrs_info inp). r \<notin> set info)
    \<and> create_map_fcc_towers (inp\<lparr>cbrs_file := Some (matched_rows inp rows)\<rparr>) rng =
        create_map_fcc_towers inp rng
    \<and> (distinct (map row_name (county_outline inp)) \<longrightarrow>
         length (unmatched_rows inp (filter (\<lambda>r. state_abbr r = abbr) rows))
           + sum_list (map length (county_cbrs_info inp))
         = length (filter (\<lambda>r. state_abbr r = abbr) rows))"
proof (intro conjI impI)
  show "\<forall>r\<in>set (unmatched_rows inp rows). \<forall>info\<in>set (county_cbrs_info inp). r \<notin> set info"
    by (auto simp add: unmatched_rows_def county_cbrs_info_def cbrs_info_eq [OF assms(1,2)])
next
  show "create_map_fcc_towers (inp\<lparr>cbrs_file := Some (matched_rows inp rows)\<rparr>) rng =
        create_map_fcc_towers inp rng"
    using assms by (rule create_map_matched)
next
  assume dist: "distinct (map row_name (county_outline inp))"
  let ?S = "filter (\<lambda>r. state_abbr r = abbr) rows"
  let ?ks = "map row_name (county_outline inp)"
  have "map length (county_cbrs_info inp) =
      map (\<lambda>k. length (filter (\<lambda>r. county_name r = k) ?S)) ?ks"
    by (simp add: county_cbrs_info_def cbrs_info_eq [OF assms(1,2)] comp_def)
  then have "sum_list (map length (county_cbrs_info inp)) =
      length (filter (\<lambda>r. county_name r \<in> set ?ks) ?S)"
    using sum_length_filter_keys [OF dist, of county_name ?S] by simp
  moreover have "length (unmatched_rows inp ?S) =
      length (filter (\<lambda>r. \<not> county_name r \<in> set ?ks) ?S)"
    by (simp add: unmatched_rows_def)
  ultimately show "length (unmatched_rows inp ?S) + sum_list (map length (county_cbrs_info inp))
      = length ?S"
    using sum_length_filter_compl [of "\<lambda>r. county_name r \<in> set ?ks" ?S] by simp
qed

text \<open>
  In the sample region the row of Kent matches no county row; the rows of the state are
  two, one joined to York and one unmatched.
\<close>

theorem join_conserves_rows_of_the_state_witness:
  "cbrs_file sample_region = Some sample_cbrs
   \<and> get_state_abbreviation (state_name sample_region) = Some ''ME''
   \<and> length (unmatched_rows sample_region sample_cbrs) = 1
   \<and> list_all (\<lambda>r. list_all (\<lambda>info. r \<notin> set info) (county_cbrs_info sample_region))
        (unmatched_rows sample_region sample_cbrs)
   \<and> create_map_fcc_towers
        (sample_region\<lparr>cbrs_file := Some (matched_rows sample_region sample_cbrs)\<rparr>) (sconst 0)
      = create_map_fcc_towers sample_region (sconst 0)
   \<and> distinct (map row_name (county_outline sample_region))
   \<and> length (unmatched_rows sample_region (filter (\<lambda>r. state_abbr r = ''ME'') sample_cbrs))
        + sum_list (map length (county_cbrs_info sample_region))
      = length (filter (\<lambda>r. state_abbr r = ''ME'') sample_cbrs)"
proof -
  have h1: "cbrs_file sample_region = Some sample_cbrs"
    by (simp add: sample_region_def)
  have h2: "get_state_abbreviation (state_name sample_region) = Some ''ME''"
    by (simp add: sample_region_def sample_abbr)
  have h3: "distinct (map row_name (county_outline sample_region))"
    by (simp add: sample_region_def)
  have h4: "length (unmatched_rows sample_region sample_cbrs) = 1"
    by (simp add: sample_region_def sample_cbrs_def unmatched_rows_def)
  show ?thesis
    using h1 h2 h3 h4 join_conserves_rows_of_the_state [OF h1 h2, of "sconst 0"]
    by (simp add: list_all_iff)
qed

end
